theory Spec2Isabelle
  imports Complex_Main "HOL-Library.Multiset" "HOL-Library.Monad_Syntax"
begin

section \<open>Conventions of the embedding\<close>

text \<open>
  The theory embeds the generation, analysis, scoring and policy-validation code of the
  password utility.

  \<^item> A Python \<open>str\<close> is a \<open>string\<close>: a list of characters with the code points
    U+0000 to U+00FF. \<open>ord\<close> reads the code point of a character.
  \<^item> A Python \<open>int\<close> is an \<open>int\<close>; \<open>len\<close> is \<open>length\<close>, converted where the code
    computes with it.
  \<^item> A Python \<open>float\<close> is a \<open>real\<close>: rounding is outside the model. The one
    place where the code leaves the range of doubles, \<open>2 ** entropy\<close>, is the
    \<open>OverflowError\<close> branch of \<open>estimate_from_entropy\<close>. \<open>int(x)\<close> on a float
    truncates towards zero.
  \<^item> A raised exception is the \<open>Inl\<close> branch of a sum.
  \<^item> The operating system's random generator is outside the program. It is the
    sequence \<open>g 0, g 1, \<dots>\<close> of raw values it delivers; the request number \<open>k\<close> for
    \<open>secrets.randbelow(m)\<close> answers \<open>g k mod m\<close>. Every answer below \<open>m\<close> arises
    from some \<open>g\<close>, so a statement for all \<open>g\<close> holds for every sequence of draws.
\<close>

definition ord :: "char \<Rightarrow> nat" where
  "ord c = of_char c"

section \<open>src/core/constants.py and config/settings.py\<close>

definition UPPERCASE :: string where
  "UPPERCASE = ''ABCDEFGHIJKLMNOPQRSTUVWXYZ''"

definition LOWERCASE :: string where
  "LOWERCASE = ''abcdefghijklmnopqrstuvwxyz''"

definition DIGITS :: string where
  "DIGITS = ''0123456789''"

text \<open>\<open>string.punctuation\<close>, the 32 ASCII punctuation characters in code-point order.\<close>

definition SYMBOLS :: string where
  "SYMBOLS = [CHR ''!'', CHR 0x22, CHR ''#'', CHR ''$'', CHR ''%'', CHR ''&'', CHR 0x27,
     CHR ''('', CHR '')'', CHR ''*'', CHR ''+'', CHR '','', CHR ''-'', CHR ''.'', CHR ''/'',
     CHR '':'', CHR '';'', CHR ''<'', CHR ''='', CHR ''>'', CHR ''?'', CHR ''@'',
     CHR ''['', CHR 0x5C, CHR '']'', CHR ''^'', CHR ''_'', CHR 0x60,
     CHR ''{'', CHR ''|'', CHR ''}'', CHR ''~'']"

definition MIN_PASSWORD_LENGTH :: int where
  "MIN_PASSWORD_LENGTH = 4"

definition MAX_PASSWORD_LENGTH :: int where
  "MAX_PASSWORD_LENGTH = 128"

section \<open>src/core/exceptions.py\<close>

datatype error =
    InvalidLengthError int int int
  | InvalidCharsetError
  | ValueError
  | OverflowError
  | ZeroDivisionError

section \<open>src/core/security.py\<close>

type_synonym rng = "nat \<Rightarrow> nat"

text \<open>
  \<open>secure_random_choice g k sequence\<close>: the choice made with draw number \<open>k\<close>, and the
  number of the next draw. \<open>secrets.choice(seq)\<close> is \<open>seq[randbelow(len(seq))]\<close>.
\<close>

definition secure_random_choice :: "rng \<Rightarrow> nat \<Rightarrow> string \<Rightarrow> error + (char \<times> nat)" where
  "secure_random_choice g k sequence =
     (if sequence = [] then Inl ValueError
      else Inr (sequence ! (g k mod length sequence), Suc k))"

text \<open>
  Lists are mutable objects. A heap holds one list per address; \<open>items.copy()\<close>
  allocates the next free address.
\<close>

type_synonym 'a heap = "'a list list"

definition list_copy :: "'a heap \<Rightarrow> nat \<Rightarrow> 'a heap \<times> nat" where
  "list_copy h a = (h @ [h ! a], length h)"

text \<open>
  \<open>shuffled[i], shuffled[j] = shuffled[j], shuffled[i]\<close>: the right-hand side is read
  first, then position \<open>i\<close> is written, then position \<open>j\<close>.
\<close>

definition swap :: "'a list \<Rightarrow> nat \<Rightarrow> nat \<Rightarrow> 'a list" where
  "swap xs i j = (let a = xs ! j; b = xs ! i in (xs[i := a])[j := b])"

text \<open>
  The loop \<open>for i in range(n - 1, 0, -1)\<close>, entered with the first value of \<open>i\<close>; it
  runs for \<open>i = n - 1, \<dots>, 1\<close> and writes the list at address \<open>shuffled\<close> in place.
\<close>

fun shuffle_loop :: "rng \<Rightarrow> nat \<Rightarrow> nat \<Rightarrow> 'a heap \<Rightarrow> nat \<Rightarrow> 'a heap \<times> nat" where
  "shuffle_loop g k 0 h shuffled = (h, k)"
| "shuffle_loop g k (Suc i') h shuffled =
     (let i = Suc i';
          j = g k mod (i + 1)
      in shuffle_loop g (Suc k) i' (h[shuffled := swap (h ! shuffled) i j]) shuffled)"

text \<open>
  \<open>secure_shuffle g k h items\<close> returns the heap after the call, the address of the
  returned list and the number of the next draw. For \<open>n = 0\<close> the range
  \<open>range(-1, 0, -1)\<close> is empty, as is \<open>range(0, 0, -1)\<close>.
\<close>

definition secure_shuffle :: "rng \<Rightarrow> nat \<Rightarrow> 'a heap \<Rightarrow> nat \<Rightarrow> 'a heap \<times> nat \<times> nat" where
  "secure_shuffle g k h items =
     (let (h1, shuffled) = list_copy h items;
          n = length (h1 ! shuffled);
          (h2, k') = shuffle_loop g k (n - 1) h1 shuffled
      in (h2, shuffled, k'))"

section \<open>src/generator/charset_builder.py\<close>

text \<open>
  The options are a dictionary from category names to flags: an association list
  with \<open>options.get(key, default)\<close> as \<open>dict_get\<close>.
\<close>

type_synonym options = "(string \<times> bool) list"

definition dict_get :: "options \<Rightarrow> string \<Rightarrow> bool \<Rightarrow> bool" where
  "dict_get d key dflt = (case map_of d key of None \<Rightarrow> dflt | Some v \<Rightarrow> v)"

definition dict_values :: "options \<Rightarrow> bool list" where
  "dict_values d = map snd d"

definition build_charset :: "options \<Rightarrow> error + string" where
  "build_charset options =
     (let charset = [];
          charset = (if dict_get options ''uppercase'' False then charset @ UPPERCASE else charset);
          charset = (if dict_get options ''lowercase'' False then charset @ LOWERCASE else charset);
          charset = (if dict_get options ''numbers'' False then charset @ DIGITS else charset);
          charset = (if dict_get options ''symbols'' False then charset @ SYMBOLS else charset)
      in if charset = [] then Inl ValueError else Inr charset)"

definition get_required_chars :: "options \<Rightarrow> string list" where
  "get_required_chars options =
     (let required = [];
          required = (if dict_get options ''uppercase'' False then required @ [UPPERCASE] else required);
          required = (if dict_get options ''lowercase'' False then required @ [LOWERCASE] else required);
          required = (if dict_get options ''numbers'' False then required @ [DIGITS] else required);
          required = (if dict_get options ''symbols'' False then required @ [SYMBOLS] else required)
      in required)"

definition calculate_charset_size :: "options \<Rightarrow> int" where
  "calculate_charset_size options =
     (let size = 0;
          size = (if dict_get options ''uppercase'' False then size + int (length UPPERCASE) else size);
          size = (if dict_get options ''lowercase'' False then size + int (length LOWERCASE) else size);
          size = (if dict_get options ''numbers'' False then size + int (length DIGITS) else size);
          size = (if dict_get options ''symbols'' False then size + int (length SYMBOLS) else size)
      in size)"

definition validate_options :: "options \<Rightarrow> bool" where
  "validate_options options = list_ex (\<lambda>v. v) (dict_values options)"

section \<open>src/generator/password_generator.py\<close>

text \<open>The loop \<open>for char_set in required_charsets\<close>.\<close>

fun draw_required :: "rng \<Rightarrow> nat \<Rightarrow> string list \<Rightarrow> string \<Rightarrow> error + (string \<times> nat)" where
  "draw_required g k [] password_chars = Inr (password_chars, k)"
| "draw_required g k (char_set # rest) password_chars =
     (case secure_random_choice g k char_set of
        Inl e \<Rightarrow> Inl e
      | Inr (c, k') \<Rightarrow> draw_required g k' rest (password_chars @ [c]))"

text \<open>The loop \<open>for _ in range(remaining)\<close>.\<close>

fun fill_remaining :: "rng \<Rightarrow> nat \<Rightarrow> nat \<Rightarrow> string \<Rightarrow> string \<Rightarrow> error + (string \<times> nat)" where
  "fill_remaining g k 0 charset password_chars = Inr (password_chars, k)"
| "fill_remaining g k (Suc r) charset password_chars =
     (case secure_random_choice g k charset of
        Inl e \<Rightarrow> Inl e
      | Inr (c, k') \<Rightarrow> fill_remaining g k' r charset (password_chars @ [c]))"

text \<open>
  \<open>generate g length options\<close> with the draws of \<open>g\<close>, numbered from 0. The list
  \<open>password_chars\<close> is the only object of the call, at address 0 of a local heap.
\<close>

definition generate :: "rng \<Rightarrow> int \<Rightarrow> options \<Rightarrow> error + string" where
  "generate g len options =
     (if len < MIN_PASSWORD_LENGTH \<or> len > MAX_PASSWORD_LENGTH
      then Inl (InvalidLengthError len MIN_PASSWORD_LENGTH MAX_PASSWORD_LENGTH)
      else if \<not> validate_options options then Inl InvalidCharsetError
      else case build_charset options of
        Inl e \<Rightarrow> Inl e
      | Inr charset \<Rightarrow>
          (let required_charsets = get_required_chars options
           in if int (length required_charsets) > len
              then Inl (InvalidLengthError len (int (length required_charsets)) MAX_PASSWORD_LENGTH)
              else case draw_required g 0 required_charsets [] of
                Inl e \<Rightarrow> Inl e
              | Inr (password_chars, k) \<Rightarrow>
                  (let remaining = len - int (length password_chars)
                   in case fill_remaining g k (nat remaining) charset password_chars of
                        Inl e \<Rightarrow> Inl e
                      | Inr (password_chars, k') \<Rightarrow>
                          (let (h, shuffled, k'') = secure_shuffle g k' [password_chars] 0
                           in Inr (h ! shuffled)))))"

text \<open>A category is enabled when \<open>options.get(category, False)\<close> is true.\<close>

definition enabled :: "options \<Rightarrow> string \<Rightarrow> bool" where
  "enabled options category = dict_get options category False"

definition some_enabled :: "options \<Rightarrow> bool" where
  "some_enabled options =
     (enabled options ''uppercase'' \<or> enabled options ''lowercase''
      \<or> enabled options ''numbers'' \<or> enabled options ''symbols'')"

section \<open>Python built-ins on strings and numbers\<close>

text \<open>\<open>int(x)\<close> for a float \<open>x\<close>: truncation towards zero.\<close>

definition py_int :: "real \<Rightarrow> int" where
  "py_int x = (if x < 0 then \<lceil>x\<rceil> else \<lfloor>x\<rfloor>)"

text \<open>\<open>str(n)\<close> for an integer: its decimal digits, with a minus sign when negative.\<close>

definition digit_char :: "nat \<Rightarrow> char" where
  "digit_char d = char_of (48 + d)"

fun str_nat :: "nat \<Rightarrow> string" where
  "str_nat n = (if n < 10 then [digit_char n] else str_nat (n div 10) @ [digit_char (n mod 10)])"

definition str_int :: "int \<Rightarrow> string" where
  "str_int i = (if i < 0 then CHR ''-'' # str_nat (nat (- i)) else str_nat (nat i))"

text \<open>
  \<open>s.lower()\<close>: the letters A to Z and the capital letters of U+00C0 to U+00DE
  (all but the multiplication sign U+00D7) move up by 32; every other character of
  the range stays.
\<close>

definition lower_char :: "char \<Rightarrow> char" where
  "lower_char c =
     (let n = ord c
      in if (65 \<le> n \<and> n \<le> 90) \<or> (192 \<le> n \<and> n \<le> 222 \<and> n \<noteq> 215)
         then char_of (n + 32) else c)"

definition lower :: "string \<Rightarrow> string" where
  "lower s = map lower_char s"

text \<open>The suffixes of a string, one per start position, and \<open>pattern in s\<close>.\<close>

fun tails :: "'a list \<Rightarrow> 'a list list" where
  "tails [] = [[]]"
| "tails (x # xs) = (x # xs) # tails xs"

definition startswith :: "string \<Rightarrow> string \<Rightarrow> bool" where
  "startswith s pattern = (take (length pattern) s = pattern)"

definition substring_in :: "string \<Rightarrow> string \<Rightarrow> bool" where
  "substring_in pattern s = list_ex (\<lambda>t. startswith t pattern) (tails s)"

text \<open>
  The character tests of \<open>str\<close> on U+0000 to U+00FF, after the Unicode character
  database: \<open>isupper\<close>, \<open>islower\<close>, \<open>isdigit\<close> and \<open>isalnum\<close> of one character.
\<close>

definition between :: "nat \<Rightarrow> nat \<Rightarrow> char \<Rightarrow> bool" where
  "between lo hi c = (lo \<le> ord c \<and> ord c \<le> hi)"

definition isupper :: "char \<Rightarrow> bool" where
  "isupper c = (between 65 90 c \<or> between 192 214 c \<or> between 216 222 c)"

definition islower :: "char \<Rightarrow> bool" where
  "islower c = (between 97 122 c \<or> ord c = 170 \<or> ord c = 181 \<or> ord c = 186
                 \<or> between 223 246 c \<or> between 248 255 c)"

definition isdigit :: "char \<Rightarrow> bool" where
  "isdigit c = (between 48 57 c \<or> ord c = 178 \<or> ord c = 179 \<or> ord c = 185)"

definition isalnum :: "char \<Rightarrow> bool" where
  "isalnum c = (between 48 57 c \<or> between 65 90 c \<or> between 97 122 c
                 \<or> ord c = 170 \<or> ord c = 178 \<or> ord c = 179 \<or> ord c = 181
                 \<or> ord c = 185 \<or> ord c = 186 \<or> between 188 190 c
                 \<or> between 192 214 c \<or> between 216 246 c \<or> between 248 255 c)"

section \<open>Regular expressions of the analyzer\<close>

text \<open>
  The character classes \<open>[A-Z]\<close>, \<open>[a-z]\<close>, \<open>\d\<close> and \<open>[^A-Za-z0-9]\<close>. Among
  U+0000 to U+00FF the decimal digits that \<open>\d\<close> accepts are 0 to 9.
\<close>

definition re_upper :: "char \<Rightarrow> bool" where
  "re_upper c = between 65 90 c"

definition re_lower :: "char \<Rightarrow> bool" where
  "re_lower c = between 97 122 c"

definition re_digit :: "char \<Rightarrow> bool" where
  "re_digit c = between 48 57 c"

definition re_symbol :: "char \<Rightarrow> bool" where
  "re_symbol c = (\<not> (between 65 90 c \<or> between 97 122 c \<or> between 48 57 c))"

text \<open>\<open>bool(re.search(cls, s))\<close> for a one-character class.\<close>

definition re_search_class :: "(char \<Rightarrow> bool) \<Rightarrow> string \<Rightarrow> bool" where
  "re_search_class cls s = list_ex cls s"

text \<open>
  A piece of a regular expression, tried at the front of a string, yields the rest of
  the string after each way it can match. \<open>digits_rep lo hi\<close> is \<open>\d{lo,hi}\<close>,
  \<open>one_of cs\<close> is a character set \<open>[cs]\<close>.
\<close>

definition digits_rep :: "nat \<Rightarrow> nat \<Rightarrow> string \<Rightarrow> string list" where
  "digits_rep lo hi s =
     map (\<lambda>n. drop n s)
       (filter (\<lambda>n. n \<le> length s \<and> list_all re_digit (take n s)) (rev [lo..<Suc hi]))"

definition one_of :: "string \<Rightarrow> string \<Rightarrow> string list" where
  "one_of cs s = (case s of [] \<Rightarrow> [] | c # r \<Rightarrow> if c \<in> set cs then [r] else [])"

text \<open>\<open>\d{2,4}[/-]\d{1,2}[/-]\d{1,2}\<close> at the front of a string.\<close>

definition DATE_PATTERN :: "string \<Rightarrow> string list" where
  "DATE_PATTERN s =
     digits_rep 2 4 s \<bind> one_of ''/-'' \<bind> digits_rep 1 2 \<bind> one_of ''/-'' \<bind> digits_rep 1 2"

text \<open>
  \<open>(.)\1{2,}\<close> at the front of a string: a character other than the line feed,
  then the same character at least twice more.
\<close>

fun REPEATED_CHAR_PATTERN :: "string \<Rightarrow> bool" where
  "REPEATED_CHAR_PATTERN (a # b # c # s) = (a \<noteq> CHR 0x0A \<and> b = a \<and> c = a)"
| "REPEATED_CHAR_PATTERN s = False"

text \<open>
  \<open>\d+$\<close> at the front of a string: one or more digits, then the end of the string
  or the line feed that ends it.
\<close>

definition digits_to_end :: "string \<Rightarrow> bool" where
  "digits_to_end s = list_ex (\<lambda>r. r = [] \<or> r = [CHR 0x0A]) (digits_rep 1 (length s) s)"

section \<open>src/generator/entropy_calculator.py\<close>

definition calculate_entropy :: "int \<Rightarrow> int \<Rightarrow> real" where
  "calculate_entropy len charset_size =
     (if charset_size \<le> 0 \<or> len \<le> 0 then 0.0
      else real_of_int len * log 2 (real_of_int charset_size))"

section \<open>The analysis dictionary\<close>

text \<open>
  The analysis is a dictionary with a fixed set of keys, one field per key, named
  \<open>a_\<close> and the key. A key that a dictionary does not hold is the field with the
  value that \<open>.get\<close> supplies for it (\<open>False\<close>, \<open>0\<close>); keys read by subscript are
  written before they are read.
\<close>

record analysis =
  a_length :: int
  a_has_uppercase :: bool
  a_has_lowercase :: bool
  a_has_numbers :: bool
  a_has_symbols :: bool
  a_has_common_patterns :: bool
  a_has_sequential :: bool
  a_has_keyboard_patterns :: bool
  a_has_repeated_chars :: bool
  a_has_date_pattern :: bool
  a_has_number_only_suffix :: bool
  a_diversity_score :: real
  a_entropy :: real
  a_score :: int
  a_strength :: string
  a_crack_time :: string
  a_security_level :: string
  a_recommendations :: "string list"
  a_detected_patterns :: "string list"

definition no_keys :: analysis where
  "no_keys = \<lparr> a_length = 0, a_has_uppercase = False, a_has_lowercase = False,
     a_has_numbers = False, a_has_symbols = False, a_has_common_patterns = False,
     a_has_sequential = False, a_has_keyboard_patterns = False,
     a_has_repeated_chars = False, a_has_date_pattern = False,
     a_has_number_only_suffix = False, a_diversity_score = 0, a_entropy = 0,
     a_score = 0, a_strength = [], a_crack_time = [], a_security_level = [],
     a_recommendations = [], a_detected_patterns = [] \<rparr>"

section \<open>src/analyzer/strength_scorer.py\<close>

definition SCORE_WEAK_THRESHOLD :: int where
  "SCORE_WEAK_THRESHOLD = 40"

definition SCORE_MEDIUM_THRESHOLD :: int where
  "SCORE_MEDIUM_THRESHOLD = 60"

definition SCORE_STRONG_THRESHOLD :: int where
  "SCORE_STRONG_THRESHOLD = 80"

definition score_length :: "int \<Rightarrow> int" where
  "score_length len =
     (if len \<ge> 20 then 30
      else if len \<ge> 16 then 28
      else if len \<ge> 12 then 24
      else if len \<ge> 10 then 20
      else if len \<ge> 8 then 15
      else len * 2)"

definition score_diversity :: "analysis \<Rightarrow> int" where
  "score_diversity analysis =
     (let diversity_score = a_diversity_score analysis
      in py_int (diversity_score * 25))"

definition score_entropy :: "real \<Rightarrow> int" where
  "score_entropy entropy =
     (if entropy \<ge> 100 then 30
      else if entropy \<ge> 80 then 28
      else if entropy \<ge> 60 then 24
      else if entropy \<ge> 40 then 18
      else py_int (entropy / 2))"

definition score_patterns :: "analysis \<Rightarrow> int" where
  "score_patterns analysis =
     (let score = 0;
          score = (if \<not> a_has_common_patterns analysis then score + 10 else score);
          score = (if \<not> a_has_sequential analysis then score + 5 else score);
          score = (if a_has_common_patterns analysis then score - 25 else score);
          score = (if a_has_sequential analysis then score - 15 else score);
          score = (if a_has_keyboard_patterns analysis then score - 10 else score);
          score = (if a_has_repeated_chars analysis then score - 10 else score);
          score = (if a_has_date_pattern analysis then score - 5 else score)
      in score)"

definition calculate_score :: "string \<Rightarrow> analysis \<Rightarrow> int" where
  "calculate_score password analysis =
     (let score = 0;
          score = score + score_length (a_length analysis);
          score = score + score_diversity analysis;
          score = score + score_entropy (a_entropy analysis);
          score = score + score_patterns analysis
      in max 0 (min 100 score))"

definition get_strength_level :: "int \<Rightarrow> string" where
  "get_strength_level score =
     (if score \<ge> SCORE_STRONG_THRESHOLD then ''Very Strong''
      else if score \<ge> SCORE_MEDIUM_THRESHOLD then ''Strong''
      else if score \<ge> SCORE_WEAK_THRESHOLD then ''Medium''
      else ''Weak'')"

section \<open>src/analyzer/crack_time_estimator.py\<close>

definition BRUTE_FORCE_RATE :: int where
  "BRUTE_FORCE_RATE = 1000000000"

definition format_time :: "real \<Rightarrow> string" where
  "format_time seconds =
     (if seconds < 0.001 then ''Instant''
      else if seconds < 1 then ''Less than 1 second''
      else if seconds < 60 then str_int (py_int seconds) @ '' seconds''
      else if seconds < 3600 then
        (let minutes = py_int (seconds / 60)
         in str_int minutes @ '' minute'' @ (if minutes \<noteq> 1 then ''s'' else []))
      else if seconds < 86400 then
        (let hours = py_int (seconds / 3600)
         in str_int hours @ '' hour'' @ (if hours \<noteq> 1 then ''s'' else []))
      else if seconds < 2592000 then
        (let days = py_int (seconds / 86400)
         in str_int days @ '' day'' @ (if days \<noteq> 1 then ''s'' else []))
      else if seconds < 31536000 then
        (let months = py_int (seconds / 2592000)
         in str_int months @ '' month'' @ (if months \<noteq> 1 then ''s'' else []))
      else if seconds < 3153600000 then
        (let years = py_int (seconds / 31536000)
         in str_int years @ '' year'' @ (if years \<noteq> 1 then ''s'' else []))
      else if seconds < 31536000000 then ''Centuries''
      else ''Millennia+'')"

text \<open>
  \<open>2 ** entropy\<close> is a float power: it raises \<open>OverflowError\<close> when the result is
  beyond the largest double, which is from \<open>entropy\<close> 1024 on. The division
  raises \<open>ZeroDivisionError\<close> for the rate 0.
\<close>

definition estimate_from_entropy :: "int \<Rightarrow> real \<Rightarrow> error + string" where
  "estimate_from_entropy attempts_per_second entropy =
     (if entropy \<le> 0 then Inr ''Instant''
      else if entropy \<ge> 1024 then Inl OverflowError
      else let combinations = 2 powr entropy
           in if 2 * attempts_per_second = 0 then Inl ZeroDivisionError
              else let seconds = combinations / real_of_int (2 * attempts_per_second)
                   in Inr (format_time seconds))"

definition get_security_level :: "int \<Rightarrow> real \<Rightarrow> error + string" where
  "get_security_level attempts_per_second entropy =
     (case estimate_from_entropy attempts_per_second entropy of
        Inl e \<Rightarrow> Inl e
      | Inr time_estimate \<Rightarrow>
          Inr (if substring_in ''Instant'' time_estimate \<or> substring_in ''second'' time_estimate
               then ''Very Weak - Crackable instantly''
               else if substring_in ''minute'' time_estimate \<or> substring_in ''hour'' time_estimate
               then ''Weak - Crackable in hours''
               else if substring_in ''day'' time_estimate
               then ''Moderate - Crackable in days''
               else if substring_in ''month'' time_estimate
               then ''Good - Crackable in months''
               else if substring_in ''year'' time_estimate \<and> \<not> substring_in ''Centur'' time_estimate
               then ''Strong - Crackable in years''
               else ''Very Strong - Crackable in centuries+''))"

section \<open>src/core/constants.py: the pattern tables\<close>

definition COMMON_PATTERNS :: "string list" where
  "COMMON_PATTERNS =
     [''password'', ''pass'', ''123456'', ''12345678'', ''qwerty'', ''abc123'',
      ''monkey'', ''letmein'', ''trustno1'', ''dragon'', ''baseball'',
      ''iloveyou'', ''master'', ''sunshine'', ''ashley'', ''bailey'',
      ''shadow'', ''superman'', ''qazwsx'', ''michael'', ''football'',
      ''welcome'', ''jesus'', ''ninja'', ''mustang'', ''admin'',
      ''login'', ''passw0rd'', ''p@ssword'', ''test'', ''user'']"

definition SEQUENTIAL_PATTERNS :: "string list" where
  "SEQUENTIAL_PATTERNS =
     [''abc'', ''bcd'', ''cde'', ''def'', ''efg'', ''fgh'', ''ghi'', ''hij'',
      ''ijk'', ''jkl'', ''klm'', ''lmn'', ''mno'', ''nop'', ''opq'', ''pqr'',
      ''qrs'', ''rst'', ''stu'', ''tuv'', ''uvw'', ''vwx'', ''wxy'', ''xyz'',
      ''123'', ''234'', ''345'', ''456'', ''567'', ''678'', ''789'',
      ''qwe'', ''wer'', ''ert'', ''rty'', ''tyu'', ''yui'', ''uio'', ''iop'',
      ''asd'', ''sdf'', ''dfg'', ''fgh'', ''ghj'', ''hjk'', ''jkl'',
      ''zxc'', ''xcv'', ''cvb'', ''vbn'', ''bnm'']"

definition KEYBOARD_PATTERNS :: "string list" where
  "KEYBOARD_PATTERNS =
     [''qwerty'', ''asdfgh'', ''zxcvbn'', ''1qaz2wsx'', ''qazwsx'',
      ''qwertyuiop'', ''asdfghjkl'', ''zxcvbnm'']"

section \<open>src/analyzer/pattern_detector.py\<close>

definition has_common_patterns :: "string \<Rightarrow> bool" where
  "has_common_patterns password =
     (let password_lower = lower password
      in list_ex (\<lambda>pattern. substring_in pattern password_lower) COMMON_PATTERNS)"

definition has_sequential_patterns :: "string \<Rightarrow> bool" where
  "has_sequential_patterns password =
     (let password_lower = lower password
      in list_ex (\<lambda>pattern. substring_in pattern password_lower
                             \<or> substring_in (rev pattern) password_lower)
           SEQUENTIAL_PATTERNS)"

definition has_keyboard_patterns :: "string \<Rightarrow> bool" where
  "has_keyboard_patterns password =
     (let password_lower = lower password
      in list_ex (\<lambda>pattern. substring_in pattern password_lower) KEYBOARD_PATTERNS)"

text \<open>
  \<open>has_repeated_characters\<close> is called with its default \<open>min_repeat = 3\<close> only, which
  makes its pattern \<open>(.)\1{2,}\<close>. \<open>re.search\<close> tries every start position.
\<close>

definition has_repeated_characters :: "string \<Rightarrow> bool" where
  "has_repeated_characters password = list_ex REPEATED_CHAR_PATTERN (tails password)"

definition has_date_pattern :: "string \<Rightarrow> bool" where
  "has_date_pattern password = list_ex (\<lambda>s. DATE_PATTERN s \<noteq> []) (tails password)"

definition has_number_suffix :: "string \<Rightarrow> bool" where
  "has_number_suffix password = list_ex digits_to_end (tails password)"

text \<open>The dictionary that \<open>detect_all_patterns\<close> returns, with its keys in order.\<close>

record patterns =
  p_has_common_patterns :: bool
  p_has_sequential :: bool
  p_has_keyboard_patterns :: bool
  p_has_repeated_chars :: bool
  p_has_date_pattern :: bool
  p_has_number_only_suffix :: bool

definition detect_all_patterns :: "string \<Rightarrow> patterns" where
  "detect_all_patterns password =
     \<lparr> p_has_common_patterns = has_common_patterns password,
       p_has_sequential = has_sequential_patterns password,
       p_has_keyboard_patterns = has_keyboard_patterns password,
       p_has_repeated_chars = has_repeated_characters password,
       p_has_date_pattern = has_date_pattern password,
       p_has_number_only_suffix = has_number_suffix password \<rparr>"

definition get_detected_patterns :: "string \<Rightarrow> string list" where
  "get_detected_patterns password =
     (let results = detect_all_patterns password
      in (if p_has_common_patterns results then [''Common weak patterns''] else [])
       @ (if p_has_sequential results then [''Sequential characters''] else [])
       @ (if p_has_keyboard_patterns results then [''Keyboard patterns''] else [])
       @ (if p_has_repeated_chars results then [''Repeated characters''] else [])
       @ (if p_has_date_pattern results then [''Date patterns''] else [])
       @ (if p_has_number_only_suffix results then [''Numbers-only suffix''] else []))"

section \<open>src/analyzer/password_analyzer.py\<close>

definition empty_analysis :: analysis where
  "empty_analysis =
     no_keys \<lparr> a_strength := ''Weak'', a_score := 0, a_entropy := 0.0, a_length := 0,
       a_has_uppercase := False, a_has_lowercase := False, a_has_numbers := False,
       a_has_symbols := False, a_diversity_score := 0.0, a_crack_time := ''Instant'',
       a_security_level := ''Very Weak'',
       a_recommendations := [''Enter a password to analyze''],
       a_detected_patterns := [] \<rparr>"

text \<open>\<open>analysis.update(patterns)\<close>.\<close>

definition update_patterns :: "analysis \<Rightarrow> patterns \<Rightarrow> analysis" where
  "update_patterns analysis ps =
     analysis \<lparr> a_has_common_patterns := p_has_common_patterns ps,
       a_has_sequential := p_has_sequential ps,
       a_has_keyboard_patterns := p_has_keyboard_patterns ps,
       a_has_repeated_chars := p_has_repeated_chars ps,
       a_has_date_pattern := p_has_date_pattern ps,
       a_has_number_only_suffix := p_has_number_only_suffix ps \<rparr>"

text \<open>\<open>sum\<close> of a list of flags counts the true ones.\<close>

definition calculate_diversity :: "analysis \<Rightarrow> real" where
  "calculate_diversity analysis =
     (let types_used = length (filter (\<lambda>b. b)
            [a_has_uppercase analysis, a_has_lowercase analysis,
             a_has_numbers analysis, a_has_symbols analysis])
      in real types_used / 4.0)"

text \<open>The variable \<open>charset_size\<close> of \<open>_calculate_entropy\<close> after its four tests.\<close>

definition entropy_charset_size :: "analysis \<Rightarrow> int" where
  "entropy_charset_size analysis =
     (let charset_size = 0;
          charset_size = (if a_has_uppercase analysis then charset_size + 26 else charset_size);
          charset_size = (if a_has_lowercase analysis then charset_size + 26 else charset_size);
          charset_size = (if a_has_numbers analysis then charset_size + 10 else charset_size);
          charset_size = (if a_has_symbols analysis then charset_size + 32 else charset_size)
      in charset_size)"

definition analyzer_calculate_entropy :: "string \<Rightarrow> analysis \<Rightarrow> real" where
  "analyzer_calculate_entropy password analysis =
     (let charset_size = entropy_charset_size analysis
      in if charset_size = 0 then 0.0
         else real (length password) * log 2 (real_of_int charset_size))"

definition generate_recommendations :: "analysis \<Rightarrow> string list" where
  "generate_recommendations analysis =
     (let recommendations = [];
          recommendations =
            (if a_length analysis < 8
             then recommendations @ [''Increase length to at least 8 characters'']
             else if a_length analysis < 12
             then recommendations @ [''Consider increasing length to 12+ characters'']
             else recommendations);
          recommendations =
            (if \<not> a_has_uppercase analysis
             then recommendations @ [''Add uppercase letters (A-Z)''] else recommendations);
          recommendations =
            (if \<not> a_has_lowercase analysis
             then recommendations @ [''Add lowercase letters (a-z)''] else recommendations);
          recommendations =
            (if \<not> a_has_numbers analysis
             then recommendations @ [''Add numbers (0-9)''] else recommendations);
          recommendations =
            (if \<not> a_has_symbols analysis
             then recommendations @ [''Add symbols (!@#$...)''] else recommendations);
          recommendations =
            (if a_has_common_patterns analysis
             then recommendations @ [''Avoid common words and patterns'']
             else recommendations);
          recommendations =
            (if a_has_sequential analysis
             then recommendations @ [''Avoid sequential characters (abc, 123)'']
             else recommendations);
          recommendations =
            (if a_has_keyboard_patterns analysis
             then recommendations @ [''Avoid keyboard patterns (qwerty)'']
             else recommendations);
          recommendations =
            (if a_has_repeated_chars analysis
             then recommendations @ [''Avoid repeated characters (aaa, 111)'']
             else recommendations);
          recommendations =
            (if a_entropy analysis < 40
             then recommendations @ [''Significantly increase password complexity'']
             else recommendations);
          recommendations =
            (if recommendations = []
             then recommendations @ [''Password meets security best practices!'']
             else recommendations)
      in recommendations)"

text \<open>
  \<open>analyze\<close> for a non-empty password, in two parts. \<open>analyze_scored\<close> is the
  dictionary when \<open>analyze\<close> reaches its call of \<open>estimate_from_entropy\<close>: the
  character classes, the patterns, the diversity, the entropy, the score and the
  strength. Nothing raises up to there. \<open>analyze\<close> goes on from it; the two calls of
  the estimator can raise, and then there is no report.
\<close>

definition analyze_scored :: "string \<Rightarrow> analysis" where
  "analyze_scored password =
     (let analysis = no_keys \<lparr> a_length := int (length password),
            a_has_uppercase := re_search_class re_upper password,
            a_has_lowercase := re_search_class re_lower password,
            a_has_numbers := re_search_class re_digit password,
            a_has_symbols := re_search_class re_symbol password \<rparr>;
          ps = detect_all_patterns password;
          analysis = update_patterns analysis ps;
          analysis = analysis \<lparr> a_diversity_score := calculate_diversity analysis \<rparr>;
          analysis = analysis \<lparr> a_entropy := analyzer_calculate_entropy password analysis \<rparr>;
          analysis = analysis \<lparr> a_score := calculate_score password analysis \<rparr>;
          analysis = analysis \<lparr> a_strength := get_strength_level (a_score analysis) \<rparr>
      in analysis)"

definition analyze :: "string \<Rightarrow> error + analysis" where
  "analyze password =
     (if password = [] then Inr empty_analysis
      else
        let analysis = analyze_scored password
        in case estimate_from_entropy BRUTE_FORCE_RATE (a_entropy analysis) of
             Inl e \<Rightarrow> Inl e
           | Inr crack_time \<Rightarrow>
               (let analysis = analysis \<lparr> a_crack_time := crack_time \<rparr>
                in case get_security_level BRUTE_FORCE_RATE (a_entropy analysis) of
                     Inl e \<Rightarrow> Inl e
                   | Inr security_level \<Rightarrow>
                       (let analysis = analysis \<lparr> a_security_level := security_level \<rparr>;
                            analysis = analysis
                              \<lparr> a_recommendations := generate_recommendations analysis \<rparr>;
                            analysis = analysis
                              \<lparr> a_detected_patterns := get_detected_patterns password \<rparr>
                        in Inr analysis)))"

section \<open>src/validator/policy_rules.py and policy_validator.py\<close>

record password_policy =
  min_length :: int
  max_length :: int
  require_uppercase :: bool
  require_lowercase :: bool
  require_numbers :: bool
  require_symbols :: bool
  min_entropy :: "real option"
  forbid_common_patterns :: bool
  forbid_sequential :: bool

definition default_policy :: password_policy where
  "default_policy = \<lparr> min_length = 8, max_length = 128, require_uppercase = True,
     require_lowercase = True, require_numbers = True, require_symbols = False,
     min_entropy = None, forbid_common_patterns = True, forbid_sequential = True \<rparr>"

text \<open>
  A message of the validator is its text; the message about the entropy, which
  prints two floats, is kept with its two numbers instead.
\<close>

datatype message =
    Text string
  | EntropyTooLow real real

record validation =
  v_valid :: bool
  v_errors :: "message list"
  v_warnings :: "message list"
  v_score :: int
  v_strength :: string

text \<open>
  In \<open>policy.min_entropy and entropy < policy.min_entropy\<close> the values \<open>None\<close> and
  0 of \<open>min_entropy\<close> are false. When \<open>analyze\<close> raises, \<open>validate\<close> raises.
\<close>

definition validate :: "password_policy \<Rightarrow> string \<Rightarrow> error + validation" where
  "validate policy password =
     (let errors = [];
          warnings = [];
          errors =
            (if int (length password) < min_length policy
             then errors @ [Text (''Password must be at least '' @ str_int (min_length policy)
                                   @ '' characters'')]
             else errors);
          errors =
            (if int (length password) > max_length policy
             then errors @ [Text (''Password must not exceed '' @ str_int (max_length policy)
                                   @ '' characters'')]
             else errors);
          errors =
            (if require_uppercase policy \<and> \<not> list_ex isupper password
             then errors @ [Text ''Password must contain at least one uppercase letter'']
             else errors);
          errors =
            (if require_lowercase policy \<and> \<not> list_ex islower password
             then errors @ [Text ''Password must contain at least one lowercase letter'']
             else errors);
          errors =
            (if require_numbers policy \<and> \<not> list_ex isdigit password
             then errors @ [Text ''Password must contain at least one number'']
             else errors);
          errors =
            (if require_symbols policy \<and> \<not> list_ex (\<lambda>c. \<not> isalnum c) password
             then errors @ [Text ''Password must contain at least one symbol'']
             else errors)
      in case analyze password of
           Inl e \<Rightarrow> Inl e
         | Inr analysis \<Rightarrow>
             (let errors =
                    (if forbid_common_patterns policy \<and> a_has_common_patterns analysis
                     then errors @ [Text ''Password contains common weak patterns'']
                     else errors);
                  errors =
                    (if forbid_sequential policy \<and> a_has_sequential analysis
                     then errors @ [Text ''Password contains sequential characters'']
                     else errors);
                  errors =
                    (case min_entropy policy of
                       None \<Rightarrow> errors
                     | Some m \<Rightarrow>
                         if m \<noteq> 0 \<and> a_entropy analysis < m
                         then errors @ [EntropyTooLow (a_entropy analysis) m]
                         else errors);
                  warnings =
                    (if errors = []
                     then (let warnings =
                                 (if a_score analysis < 60
                                  then warnings @ [Text ''Password is weak. Consider making it stronger.'']
                                  else warnings);
                               warnings =
                                 (if \<not> require_symbols policy \<and> \<not> a_has_symbols analysis
                                  then warnings @ [Text ''Adding symbols would significantly improve strength'']
                                  else warnings)
                           in warnings)
                     else warnings)
              in Inr \<lparr> v_valid = (length errors = 0), v_errors = errors, v_warnings = warnings,
                       v_score = a_score analysis, v_strength = a_strength analysis \<rparr>))"

section \<open>The scorer as the specification words it\<close>

text \<open>
  The four contributions as the specification states them, with \<open>floor\<close> where the
  code converts a float with \<open>int\<close>. They are compared with the scorer below.
\<close>

definition spec_length_points :: "int \<Rightarrow> int" where
  "spec_length_points len =
     (if len \<ge> 20 then 30 else if len \<ge> 16 then 28 else if len \<ge> 12 then 24
      else if len \<ge> 10 then 20 else if len \<ge> 8 then 15 else len * 2)"

definition spec_diversity_points :: "real \<Rightarrow> int" where
  "spec_diversity_points diversity_score = \<lfloor>diversity_score * 25\<rfloor>"

definition spec_entropy_points :: "real \<Rightarrow> int" where
  "spec_entropy_points bits =
     (if bits \<ge> 100 then 30 else if bits \<ge> 80 then 28 else if bits \<ge> 60 then 24
      else if bits \<ge> 40 then 18 else \<lfloor>bits / 2\<rfloor>)"

definition spec_pattern_adjustment :: "bool \<Rightarrow> bool \<Rightarrow> bool \<Rightarrow> bool \<Rightarrow> bool \<Rightarrow> int" where
  "spec_pattern_adjustment common sequential keyboard repeated date =
     (if \<not> common then 10 else - 25) + (if \<not> sequential then 5 else - 15)
     + (if keyboard then - 10 else 0) + (if repeated then - 10 else 0)
     + (if date then - 5 else 0)"

definition spec_score :: "analysis \<Rightarrow> int" where
  "spec_score report =
     max 0 (min 100
       (spec_length_points (a_length report)
        + spec_diversity_points (a_diversity_score report)
        + spec_entropy_points (a_entropy report)
        + spec_pattern_adjustment (a_has_common_patterns report) (a_has_sequential report)
            (a_has_keyboard_patterns report) (a_has_repeated_chars report)
            (a_has_date_pattern report)))"

text \<open>
  The recommendations that \<open>_generate_recommendations\<close> has collected when it reaches
  its last test, \<open>if not recommendations\<close>: one list per test, in the order of the
  tests. The function is compared with it below.
\<close>

definition collected_recommendations :: "analysis \<Rightarrow> string list" where
  "collected_recommendations analysis =
     (if a_length analysis < 8 then [''Increase length to at least 8 characters'']
      else if a_length analysis < 12 then [''Consider increasing length to 12+ characters'']
      else [])
     @ (if \<not> a_has_uppercase analysis then [''Add uppercase letters (A-Z)''] else [])
     @ (if \<not> a_has_lowercase analysis then [''Add lowercase letters (a-z)''] else [])
     @ (if \<not> a_has_numbers analysis then [''Add numbers (0-9)''] else [])
     @ (if \<not> a_has_symbols analysis then [''Add symbols (!@#$...)''] else [])
     @ (if a_has_common_patterns analysis then [''Avoid common words and patterns''] else [])
     @ (if a_has_sequential analysis then [''Avoid sequential characters (abc, 123)''] else [])
     @ (if a_has_keyboard_patterns analysis then [''Avoid keyboard patterns (qwerty)''] else [])
     @ (if a_has_repeated_chars analysis then [''Avoid repeated characters (aaa, 111)''] else [])
     @ (if a_entropy analysis < 40 then [''Significantly increase password complexity''] else [])"

text \<open>
  The errors that \<open>validate\<close> has collected when it reaches \<open>if not errors\<close>, and the
  warnings it collects then: one list per test, in the order of the tests. The function
  is compared with them below.
\<close>

definition collected_errors :: "password_policy \<Rightarrow> string \<Rightarrow> analysis \<Rightarrow> message list" where
  "collected_errors policy password analysis =
     (if int (length password) < min_length policy
      then [Text (''Password must be at least '' @ str_int (min_length policy)
                   @ '' characters'')]
      else [])
     @ (if int (length password) > max_length policy
        then [Text (''Password must not exceed '' @ str_int (max_length policy)
                     @ '' characters'')]
        else [])
     @ (if require_uppercase policy \<and> \<not> list_ex isupper password
        then [Text ''Password must contain at least one uppercase letter''] else [])
     @ (if require_lowercase policy \<and> \<not> list_ex islower password
        then [Text ''Password must contain at least one lowercase letter''] else [])
     @ (if require_numbers policy \<and> \<not> list_ex isdigit password
        then [Text ''Password must contain at least one number''] else [])
     @ (if require_symbols policy \<and> \<not> list_ex (\<lambda>c. \<not> isalnum c) password
        then [Text ''Password must contain at least one symbol''] else [])
     @ (if forbid_common_patterns policy \<and> a_has_common_patterns analysis
        then [Text ''Password contains common weak patterns''] else [])
     @ (if forbid_sequential policy \<and> a_has_sequential analysis
        then [Text ''Password contains sequential characters''] else [])
     @ (case min_entropy policy of
          None \<Rightarrow> []
        | Some m \<Rightarrow>
            if m \<noteq> 0 \<and> a_entropy analysis < m
            then [EntropyTooLow (a_entropy analysis) m] else [])"

definition collected_warnings :: "password_policy \<Rightarrow> analysis \<Rightarrow> message list" where
  "collected_warnings policy analysis =
     (if a_score analysis < 60
      then [Text ''Password is weak. Consider making it stronger.''] else [])
     @ (if \<not> require_symbols policy \<and> \<not> a_has_symbols analysis
        then [Text ''Adding symbols would significantly improve strength''] else [])"

section \<open>Properties of the secure random source and the generator\<close>

lemma length_swap: "length (swap xs i j) = length xs"
  by (simp add: swap_def Let_def)

lemma mset_swap_list: "i < length xs \<Longrightarrow> j < length xs \<Longrightarrow> mset (swap xs i j) = mset xs"
  unfolding swap_def Let_def by (rule mset_swap)

lemma shuffle_loop_frame:
  assumes "shuffled < length h" "i < length (h ! shuffled) \<or> i = 0"
  shows "length (fst (shuffle_loop g k i h shuffled)) = length h
       \<and> (\<forall>a. a \<noteq> shuffled \<longrightarrow> fst (shuffle_loop g k i h shuffled) ! a = h ! a)
       \<and> mset (fst (shuffle_loop g k i h shuffled) ! shuffled) = mset (h ! shuffled)
       \<and> snd (shuffle_loop g k i h shuffled) = k + i"
  using assms
proof (induction i arbitrary: k h)
  case 0
  then show ?case by simp
next
  case (Suc i)
  let ?j = "g k mod (Suc i + 1)"
  let ?h = "h[shuffled := swap (h ! shuffled) (Suc i) ?j]"
  from Suc.prems have i: "Suc i < length (h ! shuffled)" by simp
  have j: "?j < length (h ! shuffled)"
  proof -
    have "?j < Suc i + 1" by (rule mod_less_divisor) simp
    with i show ?thesis by linarith
  qed
  have s: "shuffled < length ?h" using Suc.prems by simp
  have cell: "?h ! shuffled = swap (h ! shuffled) (Suc i) ?j" using Suc.prems by simp
  have i': "i < length (?h ! shuffled) \<or> i = 0" using i Suc.prems(1) by (simp add: length_swap)
  note IH = Suc.IH [OF s i', of "Suc k"]
  show ?case
    using IH i j Suc.prems(1) by (simp add: Let_def mset_swap_list)
qed

lemma secure_shuffle_result:
  assumes "items < length h"
  obtains h' k' where "secure_shuffle g k h items = (h', length h, k')"
    "length h' = Suc (length h)"
    "mset (h' ! length h) = mset (h ! items)"
    "\<And>a. a < length h \<Longrightarrow> h' ! a = h ! a"
proof -
  let ?h1 = "h @ [h ! items]"
  let ?s = "length h"
  let ?n = "length (?h1 ! ?s)"
  have s: "?s < length ?h1" by simp
  have n: "?n - 1 < length (?h1 ! ?s) \<or> ?n - 1 = 0" by (cases "h ! items") simp_all
  note L = shuffle_loop_frame [OF s n, of g k]
  obtain h2 k' where r: "shuffle_loop g k (?n - 1) ?h1 ?s = (h2, k')" by (cases "shuffle_loop g k (?n - 1) ?h1 ?s")
  have eq: "secure_shuffle g k h items = (h2, length h, k')"
    using r by (simp add: secure_shuffle_def list_copy_def Let_def)
  have a: "length h2 = Suc (length h)" using L r by simp
  have b: "mset (h2 ! length h) = mset (h ! items)" using L r by simp
  have c: "\<And>a. a < length h \<Longrightarrow> h2 ! a = h ! a"
  proof -
    fix a assume "a < length h"
    then have "a \<noteq> ?s" by simp
    with L r have "h2 ! a = ?h1 ! a" by simp
    with \<open>a < length h\<close> show "h2 ! a = h ! a" by (simp add: nth_append)
  qed
  from eq a b c show thesis by (rule that)
qed

lemma dict_get_in_values: "dict_get options key False \<Longrightarrow> validate_options options"
proof -
  assume "dict_get options key False"
  then have "map_of options key = Some True"
    by (auto simp: dict_get_def split: option.splits)
  then have "(key, True) \<in> set options" by (rule map_of_SomeD)
  then have "True \<in> set (dict_values options)" by (force simp: dict_values_def)
  then show ?thesis by (auto simp: validate_options_def list_ex_iff)
qed

lemma some_enabled_validate: "some_enabled options \<Longrightarrow> validate_options options"
  by (auto simp: some_enabled_def enabled_def dest: dict_get_in_values)

lemma required_nonempty: "cs \<in> set (get_required_chars options) \<Longrightarrow> cs \<noteq> []"
  by (auto simp: get_required_chars_def Let_def UPPERCASE_def LOWERCASE_def DIGITS_def SYMBOLS_def split: if_splits)

lemma length_required_le: "length (get_required_chars options) \<le> 4"
  by (simp add: get_required_chars_def Let_def)

lemma required_mem:
  "enabled options ''uppercase'' \<Longrightarrow> UPPERCASE \<in> set (get_required_chars options)"
  "enabled options ''lowercase'' \<Longrightarrow> LOWERCASE \<in> set (get_required_chars options)"
  "enabled options ''numbers'' \<Longrightarrow> DIGITS \<in> set (get_required_chars options)"
  "enabled options ''symbols'' \<Longrightarrow> SYMBOLS \<in> set (get_required_chars options)"
  by (simp_all add: get_required_chars_def enabled_def Let_def)

lemma build_charset_ok:
  assumes "some_enabled options"
  obtains charset where "build_charset options = Inr charset" "charset \<noteq> []"
proof -
  have "UPPERCASE \<noteq> []" "LOWERCASE \<noteq> []" "DIGITS \<noteq> []" "SYMBOLS \<noteq> []"
    by (simp_all add: UPPERCASE_def LOWERCASE_def DIGITS_def SYMBOLS_def)
  with assms have "\<exists>charset. build_charset options = Inr charset \<and> charset \<noteq> []"
    by (auto simp: build_charset_def some_enabled_def enabled_def Let_def)
  then show thesis using that by blast
qed

lemma draw_required_ok:
  assumes "\<And>cs. cs \<in> set css \<Longrightarrow> cs \<noteq> []"
  shows "\<exists>picks k'. draw_required g k css acc = Inr (acc @ picks, k')
           \<and> list_all2 (\<lambda>c cs. c \<in> set cs) picks css"
  using assms
proof (induction css arbitrary: k acc)
  case Nil
  then show ?case by simp
next
  case (Cons cs css)
  have ne: "cs \<noteq> []" using Cons.prems by simp
  let ?c = "cs ! (g k mod length cs)"
  have c: "?c \<in> set cs" using ne by simp
  from Cons.IH [of "Suc k" "acc @ [?c]"] Cons.prems
  obtain picks k' where p: "draw_required g (Suc k) css (acc @ [?c]) = Inr ((acc @ [?c]) @ picks, k')"
      "list_all2 (\<lambda>c cs. c \<in> set cs) picks css" by auto
  have "draw_required g k (cs # css) acc = Inr (acc @ (?c # picks), k')"
    using ne p(1) by (simp add: secure_random_choice_def)
  moreover have "list_all2 (\<lambda>c cs. c \<in> set cs) (?c # picks) (cs # css)" using c p(2) by simp
  ultimately show ?case by blast
qed

lemma fill_remaining_ok:
  assumes "charset \<noteq> []"
  shows "\<exists>more k'. fill_remaining g k r charset acc = Inr (acc @ more, k')
           \<and> length more = r \<and> set more \<subseteq> set charset"
proof (induction r arbitrary: k acc)
  case 0
  then show ?case by simp
next
  case (Suc r)
  let ?c = "charset ! (g k mod length charset)"
  have c: "?c \<in> set charset" using assms by simp
  from Suc.IH [of "Suc k" "acc @ [?c]"]
  obtain more k' where p: "fill_remaining g (Suc k) r charset (acc @ [?c]) = Inr ((acc @ [?c]) @ more, k')"
      "length more = r" "set more \<subseteq> set charset" by auto
  have "fill_remaining g k (Suc r) charset acc = Inr (acc @ (?c # more), k')"
    using assms p(1) by (simp add: secure_random_choice_def)
  moreover have "length (?c # more) = Suc r" "set (?c # more) \<subseteq> set charset" using c p by simp_all
  ultimately show ?case by blast
qed

lemma generate_ok:
  assumes "MIN_PASSWORD_LENGTH \<le> len" "len \<le> MAX_PASSWORD_LENGTH" "some_enabled options"
  obtains password picks more charset where
    "generate g len options = Inr password"
    "build_charset options = Inr charset"
    "mset password = mset (picks @ more)"
    "list_all2 (\<lambda>c cs. c \<in> set cs) picks (get_required_chars options)"
    "int (length more) = len - int (length picks)"
    "set more \<subseteq> set charset"
proof -
  obtain charset where cs: "build_charset options = Inr charset" "charset \<noteq> []"
    using assms(3) by (rule build_charset_ok)
  let ?req = "get_required_chars options"
  have fit: "\<not> int (length ?req) > len"
    using length_required_le [of options] assms(1) by (simp add: MIN_PASSWORD_LENGTH_def)
  obtain picks k where d: "draw_required g 0 ?req [] = Inr (picks, k)"
      "list_all2 (\<lambda>c cs. c \<in> set cs) picks ?req"
    using draw_required_ok [of ?req g 0 "[]"] required_nonempty by auto
  have lp: "length picks = length ?req" using d(2) by (rule list_all2_lengthD)
  obtain more k' where f: "fill_remaining g k (nat (len - int (length picks))) charset picks = Inr (picks @ more, k')"
      "length more = nat (len - int (length picks))" "set more \<subseteq> set charset"
    using fill_remaining_ok [OF cs(2), of g k "nat (len - int (length picks))" picks] by auto
  obtain h' k'' where s: "secure_shuffle g k' [picks @ more] 0 = (h', length [picks @ more], k'')"
      "mset (h' ! length [picks @ more]) = mset ([picks @ more] ! 0)"
    using secure_shuffle_result [of 0 "[picks @ more]" g k'] by (metis length_Cons list.size(3) zero_less_Suc One_nat_def)
  have gen: "generate g len options = Inr (h' ! 1)"
    using assms cs(1) fit d(1) f(1) s(1) some_enabled_validate [OF assms(3)]
    by (simp add: generate_def Let_def)
  have m: "mset (h' ! 1) = mset (picks @ more)" using s(2) by simp
  have l: "int (length more) = len - int (length picks)" using f(2) fit lp by simp
  from gen cs(1) m d(2) l f(3) show thesis by (rule that)
qed


text \<open>
  Claim C1. For a length from 4 to 128 and options with at least one enabled category,
  \<open>generate\<close> returns, for every sequence of random draws, a password in which every
  enabled category has at least one character. The number of required categories is at
  most 4, so it never exceeds such a length.
\<close>

theorem generate_diversity:
  assumes "MIN_PASSWORD_LENGTH \<le> len" and "len \<le> MAX_PASSWORD_LENGTH"
    and "some_enabled options"
  shows "\<exists>password. generate g len options = Inr password
     \<and> (enabled options ''uppercase'' \<longrightarrow> (\<exists>c \<in> set password. c \<in> set UPPERCASE))
     \<and> (enabled options ''lowercase'' \<longrightarrow> (\<exists>c \<in> set password. c \<in> set LOWERCASE))
     \<and> (enabled options ''numbers'' \<longrightarrow> (\<exists>c \<in> set password. c \<in> set DIGITS))
     \<and> (enabled options ''symbols'' \<longrightarrow> (\<exists>c \<in> set password. c \<in> set SYMBOLS))"
proof -
  from assms obtain password picks more charset where
    gen: "generate g len options = Inr password"
    and m: "mset password = mset (picks @ more)"
    and p: "list_all2 (\<lambda>c cs. c \<in> set cs) picks (get_required_chars options)"
    by (rule generate_ok)
  have sub: "set picks \<subseteq> set password"
    using mset_eq_setD [OF m] by simp
  have rep: "\<exists>c \<in> set password. c \<in> set cs" if "cs \<in> set (get_required_chars options)" for cs
  proof -
    from that obtain i where i: "i < length (get_required_chars options)"
        "get_required_chars options ! i = cs"
      by (auto simp: in_set_conv_nth)
    from p i have "picks ! i \<in> set cs" "i < length picks"
      by (auto simp: list_all2_conv_all_nth)
    with sub show ?thesis by (meson nth_mem subsetD)
  qed
  show ?thesis using gen rep required_mem [of options] by blast
qed

theorem generate_diversity_witness:
  "MIN_PASSWORD_LENGTH \<le> 6 \<and> 6 \<le> MAX_PASSWORD_LENGTH
   \<and> some_enabled [(''uppercase'', True), (''lowercase'', False), (''numbers'', True), (''symbols'', False)]
   \<and> enabled [(''uppercase'', True), (''lowercase'', False), (''numbers'', True), (''symbols'', False)] ''uppercase''
   \<and> (\<exists>password. generate (\<lambda>k. 7 * k + 3) 6
          [(''uppercase'', True), (''lowercase'', False), (''numbers'', True), (''symbols'', False)] = Inr password
        \<and> (\<exists>c \<in> set password. c \<in> set UPPERCASE)
        \<and> (\<exists>c \<in> set password. c \<in> set DIGITS))"
proof -
  let ?o = "[(''uppercase'', True), (''lowercase'', False), (''numbers'', True), (''symbols'', False)]"
  have a: "MIN_PASSWORD_LENGTH \<le> 6" "6 \<le> MAX_PASSWORD_LENGTH"
    by (simp_all add: MIN_PASSWORD_LENGTH_def MAX_PASSWORD_LENGTH_def)
  have e: "enabled ?o ''uppercase''" "enabled ?o ''numbers''"
    by (simp_all add: enabled_def dict_get_def)
  have s: "some_enabled ?o" using e by (simp add: some_enabled_def)
  from generate_diversity [OF a s, of "\<lambda>k. 7 * k + 3"] e a s show ?thesis by blast
qed

text \<open>
  Claim C2. For a length from 4 to 128 and options with at least one enabled category,
  the password that \<open>generate\<close> returns has exactly \<open>len\<close> characters, for every
  sequence of random draws.
\<close>

theorem generate_length:
  assumes "MIN_PASSWORD_LENGTH \<le> len" and "len \<le> MAX_PASSWORD_LENGTH"
    and "some_enabled options"
  shows "\<exists>password. generate g len options = Inr password \<and> int (length password) = len"
proof -
  from assms obtain password picks more where
    gen: "generate g len options = Inr password"
    and m: "mset password = mset (picks @ more)"
    and l: "int (length more) = len - int (length picks)"
    by (rule generate_ok)
  have "length password = length (picks @ more)"
    using m by (rule mset_eq_length)
  with l have "int (length password) = len" by simp
  with gen show ?thesis by blast
qed

theorem generate_length_witness:
  "MIN_PASSWORD_LENGTH \<le> 16 \<and> 16 \<le> MAX_PASSWORD_LENGTH
   \<and> some_enabled [(''lowercase'', True), (''symbols'', True)]
   \<and> (\<exists>password. generate (\<lambda>k. k * k) 16 [(''lowercase'', True), (''symbols'', True)] = Inr password
        \<and> int (length password) = 16)"
proof -
  let ?o = "[(''lowercase'', True), (''symbols'', True)]"
  have a: "MIN_PASSWORD_LENGTH \<le> 16" "16 \<le> MAX_PASSWORD_LENGTH"
    by (simp_all add: MIN_PASSWORD_LENGTH_def MAX_PASSWORD_LENGTH_def)
  have s: "some_enabled ?o" by (simp add: some_enabled_def enabled_def dict_get_def)
  from generate_length [OF a s, of "\<lambda>k. k * k"] a s show ?thesis by blast
qed

text \<open>
  Claim C3. \<open>generate\<close> fails with \<open>InvalidLengthError\<close> when the length is outside
  4 to 128 or below the number of required categories; otherwise, with at least one
  enabled category, it returns a password. With length 3 and all four categories it
  fails with \<open>InvalidLengthError\<close>.
\<close>

theorem generate_length_errors:
  "(len < MIN_PASSWORD_LENGTH \<or> len > MAX_PASSWORD_LENGTH
      \<or> int (length (get_required_chars options)) > len
    \<longrightarrow> generate g len options
          = Inl (InvalidLengthError len MIN_PASSWORD_LENGTH MAX_PASSWORD_LENGTH))
   \<and> (\<not> (len < MIN_PASSWORD_LENGTH \<or> len > MAX_PASSWORD_LENGTH
           \<or> int (length (get_required_chars options)) > len)
        \<and> some_enabled options
      \<longrightarrow> (\<exists>password. generate g len options = Inr password))
   \<and> generate g 3 [(''uppercase'', True), (''lowercase'', True), (''numbers'', True),
                    (''symbols'', True)]
       = Inl (InvalidLengthError 3 4 128)"
proof (intro conjI impI)
  assume "len < MIN_PASSWORD_LENGTH \<or> len > MAX_PASSWORD_LENGTH
      \<or> int (length (get_required_chars options)) > len"
  moreover have "int (length (get_required_chars options)) \<le> 4"
    using length_required_le [of options] by simp
  ultimately have "len < MIN_PASSWORD_LENGTH \<or> len > MAX_PASSWORD_LENGTH"
    by (auto simp: MIN_PASSWORD_LENGTH_def)
  then show "generate g len options
          = Inl (InvalidLengthError len MIN_PASSWORD_LENGTH MAX_PASSWORD_LENGTH)"
    by (simp add: generate_def)
next
  assume a: "\<not> (len < MIN_PASSWORD_LENGTH \<or> len > MAX_PASSWORD_LENGTH
           \<or> int (length (get_required_chars options)) > len) \<and> some_enabled options"
  then have "MIN_PASSWORD_LENGTH \<le> len" "len \<le> MAX_PASSWORD_LENGTH" "some_enabled options"
    by simp_all
  then obtain password where "generate g len options = Inr password"
    by (rule generate_ok)
  then show "\<exists>password. generate g len options = Inr password" by blast
next
  show "generate g 3 [(''uppercase'', True), (''lowercase'', True), (''numbers'', True),
                    (''symbols'', True)] = Inl (InvalidLengthError 3 4 128)"
    by (simp add: generate_def MIN_PASSWORD_LENGTH_def MAX_PASSWORD_LENGTH_def)
qed

theorem generate_length_errors_witness:
  "generate (\<lambda>k. k) 200 [(''numbers'', True)] = Inl (InvalidLengthError 200 4 128)
   \<and> generate (\<lambda>k. k) 2 [(''uppercase'', True), (''lowercase'', True), (''numbers'', True)]
       = Inl (InvalidLengthError 2 4 128)
   \<and> (\<exists>password. generate (\<lambda>k. k) 4 [(''numbers'', True)] = Inr password)"
proof -
  let ?o = "[(''numbers'', True)]"
  let ?p = "[(''uppercase'', True), (''lowercase'', True), (''numbers'', True)]"
  have s: "some_enabled ?o" by (simp add: some_enabled_def enabled_def dict_get_def)
  have r: "length (get_required_chars ?o) = 1" "length (get_required_chars ?p) = 3"
    by (simp_all add: get_required_chars_def dict_get_def)
  from generate_length_errors [of 200 ?o "\<lambda>k. k"]
  have 1: "generate (\<lambda>k. k) 200 ?o = Inl (InvalidLengthError 200 4 128)"
    by (simp add: MIN_PASSWORD_LENGTH_def MAX_PASSWORD_LENGTH_def)
  from generate_length_errors [of 2 ?p "\<lambda>k. k"] r
  have 2: "generate (\<lambda>k. k) 2 ?p = Inl (InvalidLengthError 2 4 128)"
    by (simp add: MIN_PASSWORD_LENGTH_def MAX_PASSWORD_LENGTH_def)
  from generate_length_errors [of 4 ?o "\<lambda>k. k"] s r
  have 3: "\<exists>password. generate (\<lambda>k. k) 4 ?o = Inr password"
    by (simp add: MIN_PASSWORD_LENGTH_def MAX_PASSWORD_LENGTH_def)
  from 1 2 3 show ?thesis by blast
qed

text \<open>
  Claim C9. \<open>secure_shuffle\<close> returns a list at a new address whose elements are a
  permutation of the argument's (the same multiset, the same length), for every
  sequence of random draws, and every list that was on the heap before the call,
  the argument among them, is unchanged.
\<close>

theorem secure_shuffle_permutation:
  assumes "items < length h"
  shows "\<exists>h' shuffled k'. secure_shuffle g k h items = (h', shuffled, k')
     \<and> shuffled = length h \<and> length h' = Suc (length h)
     \<and> mset (h' ! shuffled) = mset (h ! items)
     \<and> length (h' ! shuffled) = length (h ! items)
     \<and> (\<forall>a < length h. h' ! a = h ! a)"
proof -
  obtain h' k' where r: "secure_shuffle g k h items = (h', length h, k')"
    "length h' = Suc (length h)"
    "mset (h' ! length h) = mset (h ! items)"
    "\<And>a. a < length h \<Longrightarrow> h' ! a = h ! a"
    using secure_shuffle_result [OF assms, of g k] by metis
  from r(3) have "length (h' ! length h) = length (h ! items)" by (rule mset_eq_length)
  with r show ?thesis by (intro exI [of _ h'] exI [of _ "length h"] exI [of _ k']) simp
qed

theorem secure_shuffle_permutation_witness:
  "(1::nat) < length [''xy'', ''abcd'']
   \<and> (\<exists>h' shuffled k'. secure_shuffle (\<lambda>k. 5 * k + 2) 0 [''xy'', ''abcd''] 1 = (h', shuffled, k')
     \<and> shuffled = length [''xy'', ''abcd'']
     \<and> mset (h' ! shuffled) = mset ([''xy'', ''abcd''] ! 1)
     \<and> length (h' ! shuffled) = length ([''xy'', ''abcd''] ! 1)
     \<and> (\<forall>a < length [''xy'', ''abcd'']. h' ! a = [''xy'', ''abcd''] ! a))"
proof -
  have a: "(1::nat) < length [''xy'', ''abcd'']" by simp
  from secure_shuffle_permutation [OF a, of "\<lambda>k. 5 * k + 2" 0] a show ?thesis by blast
qed

section \<open>Properties of the entropy calculator\<close>

lemma calculate_entropy_nonneg: "0 \<le> calculate_entropy len charset_size"
proof (cases "charset_size \<le> 0 \<or> len \<le> 0")
  case True
  then show ?thesis by (simp add: calculate_entropy_def)
next
  case False
  then have "1 \<le> real_of_int charset_size" "0 \<le> real_of_int len" by simp_all
  then have "0 \<le> real_of_int len * log 2 (real_of_int charset_size)" by simp
  with False show ?thesis by (simp add: calculate_entropy_def)
qed

text \<open>
  Claim C4. The entropy \<open>calculate_entropy len charset_size\<close> is
  \<open>len * log2(charset_size)\<close> when both arguments are positive and 0 when either is
  not; it is non-decreasing in the length and in the size of the character set, and
  it is 0 at length 0 and at size 0.
\<close>

theorem calculate_entropy_monotone:
  "(l1 \<le> l2 \<longrightarrow> calculate_entropy l1 c \<le> calculate_entropy l2 c)
   \<and> (c1 \<le> c2 \<longrightarrow> calculate_entropy l c1 \<le> calculate_entropy l c2)
   \<and> calculate_entropy 0 c = 0 \<and> calculate_entropy l 0 = 0
   \<and> (0 < l \<and> 0 < c \<longrightarrow> calculate_entropy l c = real_of_int l * log 2 (real_of_int c))
   \<and> (l \<le> 0 \<or> c \<le> 0 \<longrightarrow> calculate_entropy l c = 0)"
proof (intro conjI impI)
  assume le: "l1 \<le> l2"
  show "calculate_entropy l1 c \<le> calculate_entropy l2 c"
  proof (cases "c \<le> 0 \<or> l1 \<le> 0")
    case True
    then have "calculate_entropy l1 c = 0" by (simp add: calculate_entropy_def)
    then show ?thesis using calculate_entropy_nonneg [of l2 c] by simp
  next
    case False
    then have c: "1 \<le> real_of_int c" and l: "0 < l1" by simp_all
    from c have "0 \<le> log 2 (real_of_int c)" by simp
    moreover from le have "real_of_int l1 \<le> real_of_int l2" by simp
    ultimately have "real_of_int l1 * log 2 (real_of_int c) \<le> real_of_int l2 * log 2 (real_of_int c)"
      by (rule mult_right_mono [rotated])
    with False le show ?thesis by (simp add: calculate_entropy_def)
  qed
next
  assume le: "c1 \<le> c2"
  show "calculate_entropy l c1 \<le> calculate_entropy l c2"
  proof (cases "c1 \<le> 0 \<or> l \<le> 0")
    case True
    then have "calculate_entropy l c1 = 0" by (simp add: calculate_entropy_def)
    then show ?thesis using calculate_entropy_nonneg [of l c2] by simp
  next
    case False
    then have c: "0 < real_of_int c1" and l: "0 \<le> real_of_int l" by simp_all
    from c le have "log 2 (real_of_int c1) \<le> log 2 (real_of_int c2)" by simp
    with l have "real_of_int l * log 2 (real_of_int c1) \<le> real_of_int l * log 2 (real_of_int c2)"
      by (rule mult_left_mono [rotated])
    with False le show ?thesis by (simp add: calculate_entropy_def)
  qed
qed (auto simp: calculate_entropy_def)

theorem calculate_entropy_monotone_witness:
  "calculate_entropy 8 26 \<le> calculate_entropy 12 26
   \<and> calculate_entropy 8 26 \<le> calculate_entropy 8 62
   \<and> calculate_entropy 0 62 = 0 \<and> calculate_entropy 8 0 = 0
   \<and> calculate_entropy 8 32 = 40"
proof -
  have "log 2 (32::real) = 5" using log_pow_cancel [of 2 5] by simp
  then have "real_of_int 8 * log 2 (real_of_int 32) = 40" by simp
  with calculate_entropy_monotone [of 8 12 26 26 62 8]
    calculate_entropy_monotone [of 0 0 62 0 0 8]
    calculate_entropy_monotone [of 0 0 32 0 0 8]
  show ?thesis by simp
qed

section \<open>Properties of the strength scorer\<close>

lemma py_int_floor: "0 \<le> x \<Longrightarrow> py_int x = \<lfloor>x\<rfloor>"
  by (simp add: py_int_def)

lemma score_length_spec: "score_length len = spec_length_points len"
  by (simp add: score_length_def spec_length_points_def)

lemma score_patterns_spec:
  "score_patterns analysis =
     spec_pattern_adjustment (a_has_common_patterns analysis) (a_has_sequential analysis)
       (a_has_keyboard_patterns analysis) (a_has_repeated_chars analysis)
       (a_has_date_pattern analysis)"
  by (simp add: score_patterns_def spec_pattern_adjustment_def Let_def)

lemma score_entropy_spec: "0 \<le> entropy \<Longrightarrow> score_entropy entropy = spec_entropy_points entropy"
  by (simp add: score_entropy_def spec_entropy_points_def py_int_floor)

lemma score_diversity_spec:
  "0 \<le> a_diversity_score analysis
   \<Longrightarrow> score_diversity analysis = spec_diversity_points (a_diversity_score analysis)"
  by (simp add: score_diversity_def spec_diversity_points_def py_int_floor Let_def)

lemma calculate_score_bounds: "0 \<le> calculate_score password analysis \<and> calculate_score password analysis \<le> 100"
  by (simp add: calculate_score_def Let_def)

section \<open>Properties of the analyzer\<close>

lemma append_if: "(if b then xs @ [x] else xs) = xs @ (if b then [x] else [])"
  by simp

lemma append_if2:
  "(if b then xs @ [x] else if c then xs @ [y] else xs)
     = xs @ (if b then [x] else if c then [y] else [])"
  by simp

lemma append_default: "xs @ (if xs = [] then [x] else []) = (if xs = [] then [x] else xs)"
  by simp

lemma generate_recommendations_collected:
  "generate_recommendations analysis =
     (if collected_recommendations analysis = []
      then [''Password meets security best practices!'']
      else collected_recommendations analysis)"
proof -
  have "generate_recommendations analysis =
      collected_recommendations analysis
      @ (if collected_recommendations analysis = []
         then [''Password meets security best practices!''] else [])"
    apply (simp only: generate_recommendations_def collected_recommendations_def Let_def
        append_if append_if2)
    apply (simp only: append_Nil append_assoc)
    done
  then show ?thesis by (simp only: append_default)
qed


lemma calculate_score_reads:
  "calculate_score password analysis =
     max 0 (min 100
       (score_length (a_length analysis) + py_int (a_diversity_score analysis * 25)
        + score_entropy (a_entropy analysis)
        + spec_pattern_adjustment (a_has_common_patterns analysis) (a_has_sequential analysis)
            (a_has_keyboard_patterns analysis) (a_has_repeated_chars analysis)
            (a_has_date_pattern analysis)))"
  by (simp only: calculate_score_def score_diversity_def score_patterns_spec Let_def add_0)


text \<open>Each step of the analysis reads only keys that the later steps leave alone.\<close>

lemma calculate_diversity_frame:
  "calculate_diversity (a\<lparr>a_diversity_score := x1\<rparr>) = calculate_diversity a"
  "calculate_diversity (a\<lparr>a_entropy := x2\<rparr>) = calculate_diversity a"
  "calculate_diversity (a\<lparr>a_score := x3\<rparr>) = calculate_diversity a"
  "calculate_diversity (a\<lparr>a_strength := x4\<rparr>) = calculate_diversity a"
  "calculate_diversity (a\<lparr>a_crack_time := x5\<rparr>) = calculate_diversity a"
  "calculate_diversity (a\<lparr>a_security_level := x6\<rparr>) = calculate_diversity a"
  "calculate_diversity (a\<lparr>a_recommendations := x7\<rparr>) = calculate_diversity a"
  "calculate_diversity (a\<lparr>a_detected_patterns := x8\<rparr>) = calculate_diversity a"
  by (simp_all add: calculate_diversity_def cong: if_cong split del: if_split)

lemma entropy_charset_size_frame:
  "entropy_charset_size (a\<lparr>a_diversity_score := x1\<rparr>) = entropy_charset_size a"
  "entropy_charset_size (a\<lparr>a_entropy := x2\<rparr>) = entropy_charset_size a"
  "entropy_charset_size (a\<lparr>a_score := x3\<rparr>) = entropy_charset_size a"
  "entropy_charset_size (a\<lparr>a_strength := x4\<rparr>) = entropy_charset_size a"
  "entropy_charset_size (a\<lparr>a_crack_time := x5\<rparr>) = entropy_charset_size a"
  "entropy_charset_size (a\<lparr>a_security_level := x6\<rparr>) = entropy_charset_size a"
  "entropy_charset_size (a\<lparr>a_recommendations := x7\<rparr>) = entropy_charset_size a"
  "entropy_charset_size (a\<lparr>a_detected_patterns := x8\<rparr>) = entropy_charset_size a"
  by (simp_all add: entropy_charset_size_def cong: if_cong split del: if_split)


lemma analyzer_calculate_entropy_frame:
  "analyzer_calculate_entropy p (a\<lparr>a_diversity_score := x1\<rparr>) = analyzer_calculate_entropy p a"
  "analyzer_calculate_entropy p (a\<lparr>a_entropy := x2\<rparr>) = analyzer_calculate_entropy p a"
  "analyzer_calculate_entropy p (a\<lparr>a_score := x3\<rparr>) = analyzer_calculate_entropy p a"
  "analyzer_calculate_entropy p (a\<lparr>a_strength := x4\<rparr>) = analyzer_calculate_entropy p a"
  "analyzer_calculate_entropy p (a\<lparr>a_crack_time := x5\<rparr>) = analyzer_calculate_entropy p a"
  "analyzer_calculate_entropy p (a\<lparr>a_security_level := x6\<rparr>) = analyzer_calculate_entropy p a"
  "analyzer_calculate_entropy p (a\<lparr>a_recommendations := x7\<rparr>) = analyzer_calculate_entropy p a"
  "analyzer_calculate_entropy p (a\<lparr>a_detected_patterns := x8\<rparr>) = analyzer_calculate_entropy p a"
  by (simp_all only: analyzer_calculate_entropy_def entropy_charset_size_frame)

lemma calculate_score_frame:
  "calculate_score p (a\<lparr>a_score := x3\<rparr>) = calculate_score p a"
  "calculate_score p (a\<lparr>a_strength := x4\<rparr>) = calculate_score p a"
  "calculate_score p (a\<lparr>a_crack_time := x5\<rparr>) = calculate_score p a"
  "calculate_score p (a\<lparr>a_security_level := x6\<rparr>) = calculate_score p a"
  "calculate_score p (a\<lparr>a_recommendations := x7\<rparr>) = calculate_score p a"
  "calculate_score p (a\<lparr>a_detected_patterns := x8\<rparr>) = calculate_score p a"
  by (simp_all add: calculate_score_reads)

lemma collected_recommendations_frame:
  "collected_recommendations (a\<lparr>a_crack_time := x5\<rparr>) = collected_recommendations a"
  "collected_recommendations (a\<lparr>a_security_level := x6\<rparr>) = collected_recommendations a"
  "collected_recommendations (a\<lparr>a_recommendations := x7\<rparr>) = collected_recommendations a"
  "collected_recommendations (a\<lparr>a_detected_patterns := x8\<rparr>) = collected_recommendations a"
  by (simp_all add: collected_recommendations_def cong: if_cong split del: if_split)

lemma generate_recommendations_frame:
  "generate_recommendations (a\<lparr>a_crack_time := x5\<rparr>) = generate_recommendations a"
  "generate_recommendations (a\<lparr>a_security_level := x6\<rparr>) = generate_recommendations a"
  "generate_recommendations (a\<lparr>a_recommendations := x7\<rparr>) = generate_recommendations a"
  "generate_recommendations (a\<lparr>a_detected_patterns := x8\<rparr>) = generate_recommendations a"
  by (simp_all only: generate_recommendations_collected collected_recommendations_frame)

lemmas analysis_frame = calculate_diversity_frame analyzer_calculate_entropy_frame
  calculate_score_frame generate_recommendations_frame

lemma analyze_scored_classes:
  "a_length (analyze_scored password) = int (length password)"
  "a_has_uppercase (analyze_scored password) = re_search_class re_upper password"
  "a_has_lowercase (analyze_scored password) = re_search_class re_lower password"
  "a_has_numbers (analyze_scored password) = re_search_class re_digit password"
  "a_has_symbols (analyze_scored password) = re_search_class re_symbol password"
  by (simp_all add: analyze_scored_def update_patterns_def Let_def)

lemma analyze_scored_patterns:
  "a_has_common_patterns (analyze_scored password) = has_common_patterns password"
  "a_has_sequential (analyze_scored password) = has_sequential_patterns password"
  "a_has_keyboard_patterns (analyze_scored password) = has_keyboard_patterns password"
  "a_has_repeated_chars (analyze_scored password) = has_repeated_characters password"
  "a_has_date_pattern (analyze_scored password) = has_date_pattern password"
  "a_has_number_only_suffix (analyze_scored password) = has_number_suffix password"
  by (simp_all add: analyze_scored_def update_patterns_def detect_all_patterns_def Let_def)

lemma analyze_scored_derived:
  "a_diversity_score (analyze_scored password) = calculate_diversity (analyze_scored password)"
  "a_entropy (analyze_scored password)
     = analyzer_calculate_entropy password (analyze_scored password)"
  "a_score (analyze_scored password) = calculate_score password (analyze_scored password)"
  "a_strength (analyze_scored password) = get_strength_level (a_score (analyze_scored password))"
  by (simp_all add: analyze_scored_def Let_def analysis_frame)

lemma class_cover: "re_upper c \<or> re_lower c \<or> re_digit c \<or> re_symbol c"
  by (auto simp: re_upper_def re_lower_def re_digit_def re_symbol_def)

lemma some_class_flag:
  assumes "password \<noteq> []"
  shows "a_has_uppercase (analyze_scored password) \<or> a_has_lowercase (analyze_scored password)
       \<or> a_has_numbers (analyze_scored password) \<or> a_has_symbols (analyze_scored password)"
proof -
  from assms obtain c where c: "c \<in> set password" by (cases password) auto
  from class_cover [of c] c show ?thesis
    unfolding analyze_scored_classes re_search_class_def list_ex_iff by blast
qed

lemma charset_size_ge:
  assumes "a_has_uppercase a \<or> a_has_lowercase a \<or> a_has_numbers a \<or> a_has_symbols a"
  shows "10 \<le> entropy_charset_size a"
  using assms by (auto simp: entropy_charset_size_def)

lemma charset_size_le: "entropy_charset_size a \<le> 94"
  by (simp add: entropy_charset_size_def)

lemma charset_size_nonneg: "0 \<le> entropy_charset_size a"
  by (simp add: entropy_charset_size_def)

lemma diversity_ge:
  assumes "a_has_uppercase a \<or> a_has_lowercase a \<or> a_has_numbers a \<or> a_has_symbols a"
  shows "1 / 4 \<le> calculate_diversity a"
  using assms by (auto simp: calculate_diversity_def)

lemma diversity_nonneg: "0 \<le> calculate_diversity a"
  by (simp add: calculate_diversity_def)

lemma log2_128: "log 2 (128::real) = 7"
  using log_pow_cancel [of 2 7] by simp

lemma analyzer_entropy_bounds:
  "0 \<le> analyzer_calculate_entropy password a"
  "analyzer_calculate_entropy password a \<le> 7 * real (length password)"
proof -
  let ?n = "entropy_charset_size a"
  show "0 \<le> analyzer_calculate_entropy password a"
  proof (cases "?n = 0")
    case True
    then show ?thesis by (simp add: analyzer_calculate_entropy_def)
  next
    case False
    with charset_size_nonneg [of a] have "1 \<le> real_of_int ?n" by linarith
    then have "0 \<le> log 2 (real_of_int ?n)" by simp
    then have "0 \<le> real (length password) * log 2 (real_of_int ?n)" by simp
    with False show ?thesis by (simp add: analyzer_calculate_entropy_def)
  qed
  show "analyzer_calculate_entropy password a \<le> 7 * real (length password)"
  proof (cases "?n = 0")
    case True
    then show ?thesis by (simp add: analyzer_calculate_entropy_def)
  next
    case False
    with charset_size_nonneg [of a] have pos: "0 < real_of_int ?n" by linarith
    have "real_of_int ?n \<le> 128" using charset_size_le [of a] by linarith
    with pos have "log 2 (real_of_int ?n) \<le> log 2 128" by simp
    then have "log 2 (real_of_int ?n) \<le> 7" by (simp only: log2_128)
    then have "real (length password) * log 2 (real_of_int ?n) \<le> real (length password) * 7"
      by (rule mult_left_mono) simp
    with False show ?thesis by (simp add: analyzer_calculate_entropy_def)
  qed
qed

lemma analyze_scored_positive:
  assumes "password \<noteq> []"
  shows "10 \<le> entropy_charset_size (analyze_scored password)"
    and "a_entropy (analyze_scored password)
         = real (length password)
           * log 2 (real_of_int (entropy_charset_size (analyze_scored password)))"
    and "0 < a_entropy (analyze_scored password)"
    and "1 / 4 \<le> a_diversity_score (analyze_scored password)"
proof -
  let ?a = "analyze_scored password"
  have flag: "a_has_uppercase ?a \<or> a_has_lowercase ?a \<or> a_has_numbers ?a \<or> a_has_symbols ?a"
    using assms by (rule some_class_flag)
  then show size: "10 \<le> entropy_charset_size ?a" by (rule charset_size_ge)
  show ent: "a_entropy ?a = real (length password) * log 2 (real_of_int (entropy_charset_size ?a))"
    using size by (simp add: analyze_scored_derived(2) analyzer_calculate_entropy_def)
  have "1 < real_of_int (entropy_charset_size ?a)" using size by linarith
  then have "0 < log 2 (real_of_int (entropy_charset_size ?a))" by simp
  moreover have "0 < real (length password)" using assms by simp
  ultimately show "0 < a_entropy ?a" unfolding ent by (rule mult_pos_pos [rotated])
  show "1 / 4 \<le> a_diversity_score ?a"
    using flag unfolding analyze_scored_derived(1) by (rule diversity_ge)
qed

lemma analyze_scored_entropy_le:
  "a_entropy (analyze_scored password) \<le> 7 * real (length password)"
  unfolding analyze_scored_derived(2) by (rule analyzer_entropy_bounds(2))

text \<open>When the estimator returns and when it raises, at the rate of the analyzer.\<close>

lemma estimate_from_entropy_cases:
  "estimate_from_entropy BRUTE_FORCE_RATE entropy =
     (if 1024 \<le> entropy then Inl OverflowError
      else Inr (if entropy \<le> 0 then ''Instant''
                else format_time (2 powr entropy / 2000000000)))"
  by (simp add: estimate_from_entropy_def BRUTE_FORCE_RATE_def Let_def)

lemma get_security_level_cases:
  "1024 \<le> entropy \<Longrightarrow> get_security_level BRUTE_FORCE_RATE entropy = Inl OverflowError"
  "entropy < 1024 \<Longrightarrow> \<exists>level. get_security_level BRUTE_FORCE_RATE entropy = Inr level"
  by (simp_all add: get_security_level_def estimate_from_entropy_cases)

text \<open>
  The report of a non-empty password: \<open>analyze\<close> raises from entropy 1024 on and
  otherwise adds four keys to the dictionary it has scored.
\<close>

lemma analyze_overflow:
  assumes "password \<noteq> []" and "1024 \<le> a_entropy (analyze_scored password)"
  shows "analyze password = Inl OverflowError"
  using assms by (simp add: analyze_def Let_def estimate_from_entropy_cases)

lemma analyze_returns:
  assumes "password \<noteq> []" and "a_entropy (analyze_scored password) < 1024"
  shows "\<exists>crack_time level.
     estimate_from_entropy BRUTE_FORCE_RATE (a_entropy (analyze_scored password)) = Inr crack_time
     \<and> analyze password =
         Inr (analyze_scored password
               \<lparr> a_crack_time := crack_time, a_security_level := level,
                 a_recommendations := generate_recommendations (analyze_scored password),
                 a_detected_patterns := get_detected_patterns password \<rparr>)"
proof -
  let ?e = "a_entropy (analyze_scored password)"
  from assms(2) obtain t where t: "estimate_from_entropy BRUTE_FORCE_RATE ?e = Inr t"
    by (simp add: estimate_from_entropy_cases)
  from assms(2) obtain l where l: "get_security_level BRUTE_FORCE_RATE ?e = Inr l"
    using get_security_level_cases(2) by blast
  have "analyze password =
         Inr (analyze_scored password
               \<lparr> a_crack_time := t, a_security_level := l,
                 a_recommendations := generate_recommendations (analyze_scored password),
                 a_detected_patterns := get_detected_patterns password \<rparr>)"
    using assms(1) t l by (simp add: analyze_def Let_def analysis_frame)
  with t show ?thesis by blast
qed

lemma analyze_short:
  assumes "length password \<le> 146"
  shows "\<exists>report. analyze password = Inr report"
proof (cases "password = []")
  case True
  then show ?thesis by (simp add: analyze_def)
next
  case False
  have "a_entropy (analyze_scored password) \<le> 7 * real (length password)"
    by (rule analyze_scored_entropy_le)
  also have "\<dots> \<le> 7 * 146" using assms by simp
  finally have "a_entropy (analyze_scored password) < 1024" by simp
  with False show ?thesis using analyze_returns by blast
qed

lemma analyze_report:
  assumes "password \<noteq> []" and "analyze password = Inr report"
  shows "a_entropy (analyze_scored password) < 1024"
    and "\<exists>crack_time level. report =
           analyze_scored password
             \<lparr> a_crack_time := crack_time, a_security_level := level,
               a_recommendations := generate_recommendations (analyze_scored password),
               a_detected_patterns := get_detected_patterns password \<rparr>"
proof -
  show lt: "a_entropy (analyze_scored password) < 1024"
  proof (rule ccontr)
    assume "\<not> a_entropy (analyze_scored password) < 1024"
    then have "analyze password = Inl OverflowError"
      using assms(1) by (simp add: analyze_overflow)
    with assms(2) show False by simp
  qed
  from analyze_returns [OF assms(1) lt] assms(2)
  show "\<exists>crack_time level. report =
           analyze_scored password
             \<lparr> a_crack_time := crack_time, a_security_level := level,
               a_recommendations := generate_recommendations (analyze_scored password),
               a_detected_patterns := get_detected_patterns password \<rparr>"
    by auto
qed

lemma analyze_report_fields:
  assumes "password \<noteq> []" and "analyze password = Inr report"
  shows "a_length report = int (length password)"
    and "a_has_uppercase report = a_has_uppercase (analyze_scored password)"
    and "a_has_lowercase report = a_has_lowercase (analyze_scored password)"
    and "a_has_numbers report = a_has_numbers (analyze_scored password)"
    and "a_has_symbols report = a_has_symbols (analyze_scored password)"
    and "a_has_common_patterns report = has_common_patterns password"
    and "a_has_sequential report = has_sequential_patterns password"
    and "a_has_keyboard_patterns report = has_keyboard_patterns password"
    and "a_has_repeated_chars report = has_repeated_characters password"
    and "a_has_date_pattern report = has_date_pattern password"
    and "a_has_number_only_suffix report = has_number_suffix password"
    and "a_diversity_score report = a_diversity_score (analyze_scored password)"
    and "a_entropy report = a_entropy (analyze_scored password)"
    and "a_score report = a_score (analyze_scored password)"
    and "entropy_charset_size report = entropy_charset_size (analyze_scored password)"
    and "calculate_score q report = calculate_score q (analyze_scored password)"
    and "a_recommendations report = generate_recommendations report"
proof -
  from analyze_report(2) [OF assms] obtain crack_time level where
    r: "report = analyze_scored password
             \<lparr> a_crack_time := crack_time, a_security_level := level,
               a_recommendations := generate_recommendations (analyze_scored password),
               a_detected_patterns := get_detected_patterns password \<rparr>"
    by blast
  show "a_length report = int (length password)"
    and "a_has_uppercase report = a_has_uppercase (analyze_scored password)"
    and "a_has_lowercase report = a_has_lowercase (analyze_scored password)"
    and "a_has_numbers report = a_has_numbers (analyze_scored password)"
    and "a_has_symbols report = a_has_symbols (analyze_scored password)"
    and "a_has_common_patterns report = has_common_patterns password"
    and "a_has_sequential report = has_sequential_patterns password"
    and "a_has_keyboard_patterns report = has_keyboard_patterns password"
    and "a_has_repeated_chars report = has_repeated_characters password"
    and "a_has_date_pattern report = has_date_pattern password"
    and "a_has_number_only_suffix report = has_number_suffix password"
    and "a_diversity_score report = a_diversity_score (analyze_scored password)"
    and "a_entropy report = a_entropy (analyze_scored password)"
    and "a_score report = a_score (analyze_scored password)"
    unfolding r by (simp_all add: analyze_scored_classes analyze_scored_patterns)
  show "entropy_charset_size report = entropy_charset_size (analyze_scored password)"
    unfolding r by (simp add: entropy_charset_size_frame)
  show "calculate_score q report = calculate_score q (analyze_scored password)"
    unfolding r by (simp add: calculate_score_frame)
  show "a_recommendations report = generate_recommendations report"
    unfolding r by (simp add: generate_recommendations_frame)
qed

lemma analyze_scored_nonneg:
  "0 \<le> a_entropy (analyze_scored password)" "0 \<le> a_diversity_score (analyze_scored password)"
  unfolding analyze_scored_derived(1,2)
  by (rule analyzer_entropy_bounds(1), rule diversity_nonneg)

lemma analyze_report_nonneg:
  assumes "analyze password = Inr report"
  shows "0 \<le> a_entropy report \<and> 0 \<le> a_diversity_score report"
proof (cases "password = []")
  case True
  with assms have "report = empty_analysis" by (simp add: analyze_def)
  then show ?thesis by (simp add: empty_analysis_def)
next
  case False
  from analyze_report_fields(12,13) [OF False assms] analyze_scored_nonneg [of password]
  show ?thesis by simp
qed

lemma calculate_score_spec:
  assumes "0 \<le> a_entropy report" and "0 \<le> a_diversity_score report"
  shows "calculate_score password report = spec_score report"
  using assms
  by (simp add: calculate_score_def spec_score_def score_length_spec score_patterns_spec
      score_entropy_spec score_diversity_spec Let_def)

text \<open>
  Claim C5. For every password and analysis report the scorer's result is an integer
  from 0 to 100, and it is the clamp to that range of the sum of the length table, the
  floor of 25 times the diversity score, the entropy table (with the floor of half the
  bits below 40 bits) and the pattern adjustment: for every report whose entropy and
  diversity score are not negative, which every report of the analyzer is, and for the
  dictionary on which the analyzer runs the scorer. (\<open>int\<close> and \<open>floor\<close> differ on
  negative numbers only.)
\<close>

theorem calculate_score_clamped_sum:
  "0 \<le> calculate_score password report \<and> calculate_score password report \<le> 100
   \<and> (0 \<le> a_entropy report \<and> 0 \<le> a_diversity_score report
        \<longrightarrow> calculate_score password report = spec_score report)
   \<and> (analyze p = Inr report
        \<longrightarrow> 0 \<le> a_entropy report \<and> 0 \<le> a_diversity_score report
            \<and> calculate_score password report = spec_score report)
   \<and> a_score (analyze_scored p) = calculate_score p (analyze_scored p)
   \<and> calculate_score p (analyze_scored p) = spec_score (analyze_scored p)
   \<and> (p \<noteq> [] \<and> analyze p = Inr report \<longrightarrow> a_score report = spec_score report)"
proof (intro conjI impI)
  show "0 \<le> calculate_score password report" "calculate_score password report \<le> 100"
    using calculate_score_bounds [of password report] by simp_all
next
  assume "0 \<le> a_entropy report \<and> 0 \<le> a_diversity_score report"
  then show "calculate_score password report = spec_score report"
    by (simp add: calculate_score_spec)
next
  assume a: "analyze p = Inr report"
  from analyze_report_nonneg [OF a]
  show "0 \<le> a_entropy report" "0 \<le> a_diversity_score report"
    "calculate_score password report = spec_score report"
    by (simp_all add: calculate_score_spec)
next
  show "a_score (analyze_scored p) = calculate_score p (analyze_scored p)"
    by (rule analyze_scored_derived(3))
  show s: "calculate_score p (analyze_scored p) = spec_score (analyze_scored p)"
    using analyze_scored_nonneg [of p] by (simp add: calculate_score_spec)
next
  assume a: "p \<noteq> [] \<and> analyze p = Inr report"
  then have ne: "p \<noteq> []" and r: "analyze p = Inr report" by simp_all
  have "a_score report = calculate_score p report"
    by (simp only: analyze_report_fields(14,16) [OF ne r] analyze_scored_derived(3))
  also have "\<dots> = spec_score report"
    using analyze_report_nonneg [OF r] by (simp add: calculate_score_spec)
  finally show "a_score report = spec_score report" .
qed

theorem calculate_score_clamped_sum_witness:
  "(0::real) \<le> 45 \<and> (0::real) \<le> 0.75
   \<and> calculate_score ''Abcdefg1''
        (no_keys \<lparr> a_length := 8, a_has_sequential := True, a_diversity_score := 0.75,
                   a_entropy := 45 \<rparr>) = 46
   \<and> spec_score
        (no_keys \<lparr> a_length := 8, a_has_sequential := True, a_diversity_score := 0.75,
                   a_entropy := 45 \<rparr>) = 46
   \<and> analyze [] = Inr empty_analysis
   \<and> calculate_score [] empty_analysis = spec_score empty_analysis"
proof -
  let ?r = "no_keys \<lparr> a_length := 8, a_has_sequential := True, a_diversity_score := 0.75,
                   a_entropy := 45 \<rparr>"
  have h: "0 \<le> a_entropy ?r \<and> 0 \<le> a_diversity_score ?r" by (simp add: no_keys_def)
  have a: "\<lfloor>(75::real) / 4\<rfloor> = 18" by linarith
  have s: "spec_score ?r = 46"
    using a by (simp add: spec_score_def spec_length_points_def spec_diversity_points_def
        spec_entropy_points_def spec_pattern_adjustment_def no_keys_def)
  have e: "analyze [] = Inr empty_analysis" by (simp add: analyze_def)
  from calculate_score_clamped_sum [of "''Abcdefg1''" ?r "[]"] h s
  have 1: "calculate_score ''Abcdefg1'' ?r = 46" by simp
  from calculate_score_clamped_sum [of "[]" empty_analysis "[]"] e
  have 2: "calculate_score [] empty_analysis = spec_score empty_analysis" by simp
  from 1 2 s e show ?thesis by simp
qed

text \<open>
  Claim C10. Every character is in at least one of the four classes, the symbol class
  being the complement of the other three ranges. So for a non-empty password the
  alphabet size that the analyzer derives is positive, its entropy is the product of
  the length and the logarithm of that size (the branch for size 0 is not taken), the
  entropy is strictly positive and the diversity score is at least 0.25: in the
  dictionary that the analyzer has built when it has scored the password, and in every
  report that it returns. It returns one for every password of up to 146 characters.
\<close>

theorem analyze_nonempty_positive:
  assumes "password \<noteq> []"
  shows "(\<forall>c \<in> set password. re_upper c \<or> re_lower c \<or> re_digit c \<or> re_symbol c)
     \<and> 0 < entropy_charset_size (analyze_scored password)
     \<and> a_entropy (analyze_scored password)
         = real (length password)
           * log 2 (real_of_int (entropy_charset_size (analyze_scored password)))
     \<and> 0 < a_entropy (analyze_scored password)
     \<and> 1 / 4 \<le> a_diversity_score (analyze_scored password)
     \<and> (\<forall>report. analyze password = Inr report \<longrightarrow>
           0 < entropy_charset_size report
           \<and> a_entropy report
               = real (length password) * log 2 (real_of_int (entropy_charset_size report))
           \<and> 0 < a_entropy report \<and> 1 / 4 \<le> a_diversity_score report)
     \<and> (length password \<le> 146 \<longrightarrow> (\<exists>report. analyze password = Inr report))"
proof -
  note s = analyze_scored_positive [OF assms]
  have scored: "0 < entropy_charset_size (analyze_scored password)"
    "a_entropy (analyze_scored password)
         = real (length password)
           * log 2 (real_of_int (entropy_charset_size (analyze_scored password)))"
    "0 < a_entropy (analyze_scored password)"
    "1 / 4 \<le> a_diversity_score (analyze_scored password)"
    using s by simp_all
  have rep: "0 < entropy_charset_size report
           \<and> a_entropy report
               = real (length password) * log 2 (real_of_int (entropy_charset_size report))
           \<and> 0 < a_entropy report \<and> 1 / 4 \<le> a_diversity_score report"
    if "analyze password = Inr report" for report
    using scored by (simp only: analyze_report_fields(12,13,15) [OF assms that] simp_thms)
  have short: "length password \<le> 146 \<longrightarrow> (\<exists>report. analyze password = Inr report)"
    using analyze_short by blast
  from class_cover scored rep short show ?thesis by blast
qed

theorem analyze_nonempty_positive_witness:
  "''a1'' \<noteq> [] \<and> length ''a1'' \<le> 146
   \<and> entropy_charset_size (analyze_scored ''a1'') = 36
   \<and> a_entropy (analyze_scored ''a1'') = 2 * log 2 36
   \<and> (\<exists>report. analyze ''a1'' = Inr report \<and> a_entropy report = 2 * log 2 36
         \<and> 0 < a_entropy report \<and> 1 / 4 \<le> a_diversity_score report)"
proof -
  have ne: "''a1'' \<noteq> []" and le: "length ''a1'' \<le> 146" by simp_all
  have cls: "a_has_lowercase (analyze_scored ''a1'')" "a_has_numbers (analyze_scored ''a1'')"
      "\<not> a_has_uppercase (analyze_scored ''a1'')" "\<not> a_has_symbols (analyze_scored ''a1'')"
    unfolding analyze_scored_classes
    by (simp_all add: re_search_class_def re_lower_def re_digit_def re_upper_def
        re_symbol_def between_def ord_def)
  have size: "entropy_charset_size (analyze_scored ''a1'') = 36"
    using cls by (simp add: entropy_charset_size_def)
  note t = analyze_nonempty_positive [OF ne]
  from t le obtain report where r: "analyze ''a1'' = Inr report" by blast
  from t r have "0 < entropy_charset_size report
           \<and> a_entropy report
               = real (length ''a1'') * log 2 (real_of_int (entropy_charset_size report))
           \<and> 0 < a_entropy report \<and> 1 / 4 \<le> a_diversity_score report" by blast
  moreover have "entropy_charset_size report = 36"
    using analyze_report_fields(15) [OF ne r] size by simp
  ultimately have "analyze ''a1'' = Inr report \<and> a_entropy report = 2 * log 2 36
         \<and> 0 < a_entropy report \<and> 1 / 4 \<le> a_diversity_score report"
    using r by simp
  moreover from t size have "a_entropy (analyze_scored ''a1'') = 2 * log 2 36" by simp
  ultimately show ?thesis using ne le size by blast
qed

lemma count_list_if:
  "count_list (if b then [x] else []) m = of_bool (b \<and> x = m)"
  by (cases b) auto

lemma count_list_if2:
  "count_list (if b then [x] else if c then [y] else []) m
     = of_bool (b \<and> x = m) + of_bool (\<not> b \<and> c \<and> y = m)"
  by (cases b; cases c) auto

lemma nil_if: "((if b then [x] else []) = []) = (\<not> b)"
  by simp

lemma nil_if2: "((if b then [x] else if c then [y] else []) = []) = (\<not> b \<and> \<not> c)"
  by simp

lemma collected_count:
  "count_list (collected_recommendations a) ''Increase length to at least 8 characters''
     = of_bool (a_length a < 8)"
  "count_list (collected_recommendations a) ''Consider increasing length to 12+ characters''
     = of_bool (\<not> a_length a < 8 \<and> a_length a < 12)"
  "count_list (collected_recommendations a) ''Add uppercase letters (A-Z)''
     = of_bool (\<not> a_has_uppercase a)"
  "count_list (collected_recommendations a) ''Add lowercase letters (a-z)''
     = of_bool (\<not> a_has_lowercase a)"
  "count_list (collected_recommendations a) ''Add numbers (0-9)''
     = of_bool (\<not> a_has_numbers a)"
  "count_list (collected_recommendations a) ''Add symbols (!@#$...)''
     = of_bool (\<not> a_has_symbols a)"
  "count_list (collected_recommendations a) ''Avoid common words and patterns''
     = of_bool (a_has_common_patterns a)"
  "count_list (collected_recommendations a) ''Avoid sequential characters (abc, 123)''
     = of_bool (a_has_sequential a)"
  "count_list (collected_recommendations a) ''Avoid keyboard patterns (qwerty)''
     = of_bool (a_has_keyboard_patterns a)"
  "count_list (collected_recommendations a) ''Avoid repeated characters (aaa, 111)''
     = of_bool (a_has_repeated_chars a)"
  "count_list (collected_recommendations a) ''Significantly increase password complexity''
     = of_bool (a_entropy a < 40)"
  "count_list (collected_recommendations a) ''Password meets security best practices!'' = 0"
  by (simp_all add: collected_recommendations_def count_list_if count_list_if2
      split del: if_split)


lemma collected_nil:
  "(collected_recommendations a = []) =
     (12 \<le> a_length a \<and> a_has_uppercase a \<and> a_has_lowercase a \<and> a_has_numbers a
      \<and> a_has_symbols a \<and> \<not> a_has_common_patterns a \<and> \<not> a_has_sequential a
      \<and> \<not> a_has_keyboard_patterns a \<and> \<not> a_has_repeated_chars a \<and> 40 \<le> a_entropy a)"
  by (simp only: collected_recommendations_def append_is_Nil_conv nil_if nil_if2 not_less
      not_not) auto

lemma collected_ignores_date_and_suffix:
  "collected_recommendations (a\<lparr>a_has_date_pattern := b, a_has_number_only_suffix := c\<rparr>)
     = collected_recommendations a"
  by (simp add: collected_recommendations_def cong: if_cong split del: if_split)

lemma log2_94: "6 \<le> log 2 (94::real)" "log 2 (94::real) \<le> 7"
proof -
  have a: "log 2 (64::real) \<le> log 2 94" by simp
  have b: "log 2 (64::real) = 6" using log_pow_cancel [of 2 6] by simp
  from a b show "6 \<le> log 2 (94::real)" by simp
  have c: "log 2 (94::real) \<le> log 2 128" by simp
  then show "log 2 (94::real) \<le> 7" by (simp only: log2_128)
qed

text \<open>
  Claim C7, as stated, fails: the date-pattern flag and the numeric-suffix flag have
  no recommendation. For the password below the analyzer returns a report in which
  both flags are true and the only recommendation is the positive affirmation.
\<close>

theorem recommendations_date_counterexample:
  "\<exists>report. analyze ''Kx#qZm!2020-1-7'' = Inr report
     \<and> a_has_date_pattern report \<and> a_has_number_only_suffix report
     \<and> a_recommendations report = [''Password meets security best practices!'']"
proof -
  let ?p = "''Kx#qZm!2020-1-7''"
  have ne: "?p \<noteq> []" by simp
  have "length ?p \<le> 146" by simp
  then obtain report where r: "analyze ?p = Inr report" using analyze_short by blast
  note f = analyze_report_fields [OF ne r]
  have pat: "has_date_pattern ?p" "has_number_suffix ?p" "\<not> has_common_patterns ?p"
    "\<not> has_sequential_patterns ?p" "\<not> has_keyboard_patterns ?p"
    "\<not> has_repeated_characters ?p"
    by code_simp+
  have cls: "re_search_class re_upper ?p" "re_search_class re_lower ?p"
    "re_search_class re_digit ?p" "re_search_class re_symbol ?p"
    by code_simp+
  have flags: "a_has_uppercase report" "a_has_lowercase report" "a_has_numbers report"
    "a_has_symbols report"
    using cls by (simp_all add: f(2-5) analyze_scored_classes)
  have size: "entropy_charset_size (analyze_scored ?p) = 94"
    using cls by (simp add: entropy_charset_size_def analyze_scored_classes)
  have "a_entropy report = 15 * log 2 94"
    using size by (simp add: f(13) analyze_scored_derived(2) analyzer_calculate_entropy_def)
  with log2_94(1) have ent: "40 \<le> a_entropy report" by simp
  have "collected_recommendations report = []"
    unfolding collected_nil using pat flags ent by (simp add: f(1,6-9))
  then have "a_recommendations report = [''Password meets security best practices!'']"
    by (simp add: f(17) generate_recommendations_collected)
  with pat r show ?thesis by (simp add: f(10,11))
qed

lemma recommendations_count:
  assumes "m \<noteq> ''Password meets security best practices!''"
  shows "count_list (generate_recommendations a) m = count_list (collected_recommendations a) m"
  using assms by (simp add: generate_recommendations_collected)

lemma recommendations_default:
  "(generate_recommendations a = [''Password meets security best practices!''])
     = (collected_recommendations a = [])"
proof
  assume g: "generate_recommendations a = [''Password meets security best practices!'']"
  show "collected_recommendations a = []"
  proof (rule ccontr)
    assume "collected_recommendations a \<noteq> []"
    with g have "collected_recommendations a = [''Password meets security best practices!'']"
      by (simp add: generate_recommendations_collected)
    then have "count_list (collected_recommendations a)
        ''Password meets security best practices!'' = 1" by simp
    then show False by (simp add: collected_count(12))
  qed
next
  assume "collected_recommendations a = []"
  then show "generate_recommendations a = [''Password meets security best practices!'']"
    by (simp add: generate_recommendations_collected)
qed

lemma recommendations_default_alone:
  assumes "''Password meets security best practices!'' \<in> set (generate_recommendations a)"
  shows "generate_recommendations a = [''Password meets security best practices!'']"
proof (cases "collected_recommendations a = []")
  case True
  then show ?thesis by (simp add: recommendations_default)
next
  case False
  with assms have "''Password meets security best practices!''
      \<in> set (collected_recommendations a)"
    by (simp add: generate_recommendations_collected)
  then have "count_list (collected_recommendations a)
      ''Password meets security best practices!'' \<noteq> 0"
    by (simp only: count_list_0_iff not_not)
  then show ?thesis by (simp add: collected_count(12))
qed

text \<open>
  Claim C7, amended. For a non-empty password the recommendations of the report that
  the analyzer returns hold exactly one avoidance recommendation for each of the four
  flags common, sequential, keyboard and repeated characters that is true and none for
  a flag that is false, besides the length, missing-class and entropy recommendations,
  each exactly when its condition holds. The positive affirmation is the whole list
  exactly when no condition holds, and it occurs in no other list. The date-pattern
  and numeric-suffix flags do not change the recommendations. The analyzer returns a
  report for every password of up to 146 characters.
\<close>

theorem recommendations_per_flag:
  assumes "password \<noteq> []"
  shows "(length password \<le> 146 \<longrightarrow> (\<exists>a. analyze password = Inr a))
   \<and> (\<forall>a. analyze password = Inr a \<longrightarrow>
     (let recs = a_recommendations a in
     count_list recs ''Avoid common words and patterns'' = of_bool (a_has_common_patterns a)
   \<and> count_list recs ''Avoid sequential characters (abc, 123)'' = of_bool (a_has_sequential a)
   \<and> count_list recs ''Avoid keyboard patterns (qwerty)'' = of_bool (a_has_keyboard_patterns a)
   \<and> count_list recs ''Avoid repeated characters (aaa, 111)'' = of_bool (a_has_repeated_chars a)
   \<and> count_list recs ''Increase length to at least 8 characters'' = of_bool (a_length a < 8)
   \<and> count_list recs ''Consider increasing length to 12+ characters''
       = of_bool (8 \<le> a_length a \<and> a_length a < 12)
   \<and> count_list recs ''Add uppercase letters (A-Z)'' = of_bool (\<not> a_has_uppercase a)
   \<and> count_list recs ''Add lowercase letters (a-z)'' = of_bool (\<not> a_has_lowercase a)
   \<and> count_list recs ''Add numbers (0-9)'' = of_bool (\<not> a_has_numbers a)
   \<and> count_list recs ''Add symbols (!@#$...)'' = of_bool (\<not> a_has_symbols a)
   \<and> count_list recs ''Significantly increase password complexity'' = of_bool (a_entropy a < 40)
   \<and> (recs = [''Password meets security best practices!''])
       = (12 \<le> a_length a \<and> a_has_uppercase a \<and> a_has_lowercase a \<and> a_has_numbers a
          \<and> a_has_symbols a \<and> \<not> a_has_common_patterns a \<and> \<not> a_has_sequential a
          \<and> \<not> a_has_keyboard_patterns a \<and> \<not> a_has_repeated_chars a \<and> 40 \<le> a_entropy a)
   \<and> (count_list recs ''Password meets security best practices!'' = 0
        \<or> recs = [''Password meets security best practices!''])
   \<and> generate_recommendations
         (a\<lparr>a_has_date_pattern := date, a_has_number_only_suffix := suffix\<rparr>) = recs))"
proof (intro conjI allI impI)
  assume "length password \<le> 146"
  then show "\<exists>a. analyze password = Inr a" by (rule analyze_short)
next
  fix a
  assume r: "analyze password = Inr a"
  have recs: "a_recommendations a = generate_recommendations a"
    using assms r by (rule analyze_report_fields(17))
  have alone: "count_list (generate_recommendations a) ''Password meets security best practices!'' = 0
        \<or> generate_recommendations a = [''Password meets security best practices!'']"
    using recommendations_default_alone [of a] by (auto simp only: count_list_0_iff)
  have ign: "generate_recommendations
         (a\<lparr>a_has_date_pattern := date, a_has_number_only_suffix := suffix\<rparr>)
       = generate_recommendations a"
    by (simp only: generate_recommendations_collected collected_ignores_date_and_suffix)
  have len: "(\<not> a_length a < 8 \<and> a_length a < 12) = (8 \<le> a_length a \<and> a_length a < 12)"
    by auto
  show "let recs = a_recommendations a in
     count_list recs ''Avoid common words and patterns'' = of_bool (a_has_common_patterns a)
   \<and> count_list recs ''Avoid sequential characters (abc, 123)'' = of_bool (a_has_sequential a)
   \<and> count_list recs ''Avoid keyboard patterns (qwerty)'' = of_bool (a_has_keyboard_patterns a)
   \<and> count_list recs ''Avoid repeated characters (aaa, 111)'' = of_bool (a_has_repeated_chars a)
   \<and> count_list recs ''Increase length to at least 8 characters'' = of_bool (a_length a < 8)
   \<and> count_list recs ''Consider increasing length to 12+ characters''
       = of_bool (8 \<le> a_length a \<and> a_length a < 12)
   \<and> count_list recs ''Add uppercase letters (A-Z)'' = of_bool (\<not> a_has_uppercase a)
   \<and> count_list recs ''Add lowercase letters (a-z)'' = of_bool (\<not> a_has_lowercase a)
   \<and> count_list recs ''Add numbers (0-9)'' = of_bool (\<not> a_has_numbers a)
   \<and> count_list recs ''Add symbols (!@#$...)'' = of_bool (\<not> a_has_symbols a)
   \<and> count_list recs ''Significantly increase password complexity'' = of_bool (a_entropy a < 40)
   \<and> (recs = [''Password meets security best practices!''])
       = (12 \<le> a_length a \<and> a_has_uppercase a \<and> a_has_lowercase a \<and> a_has_numbers a
          \<and> a_has_symbols a \<and> \<not> a_has_common_patterns a \<and> \<not> a_has_sequential a
          \<and> \<not> a_has_keyboard_patterns a \<and> \<not> a_has_repeated_chars a \<and> 40 \<le> a_entropy a)
   \<and> (count_list recs ''Password meets security best practices!'' = 0
        \<or> recs = [''Password meets security best practices!''])
   \<and> generate_recommendations
         (a\<lparr>a_has_date_pattern := date, a_has_number_only_suffix := suffix\<rparr>) = recs"
    unfolding Let_def recs
    using alone ign
    by (simp only: recommendations_count collected_count recommendations_default collected_nil
        len list.inject char.inject simp_thms)
qed

theorem recommendations_per_flag_witness:
  "''aaa7'' \<noteq> [] \<and> length ''aaa7'' \<le> 146
   \<and> (\<exists>a. analyze ''aaa7'' = Inr a
     \<and> count_list (a_recommendations a) ''Avoid repeated characters (aaa, 111)'' = 1
     \<and> count_list (a_recommendations a) ''Avoid keyboard patterns (qwerty)'' = 0
     \<and> count_list (a_recommendations a) ''Increase length to at least 8 characters'' = 1
     \<and> a_recommendations a \<noteq> [''Password meets security best practices!''])"
proof -
  have ne: "''aaa7'' \<noteq> []" and le: "length ''aaa7'' \<le> 146" by simp_all
  note t = recommendations_per_flag [OF ne, of False False]
  from t le obtain a where r: "analyze ''aaa7'' = Inr a" by blast
  have pat: "has_repeated_characters ''aaa7''" "\<not> has_keyboard_patterns ''aaa7''"
    by code_simp+
  have flags: "a_has_repeated_chars a" "\<not> a_has_keyboard_patterns a" "a_length a = 4"
    using pat by (simp_all add: analyze_report_fields [OF ne r])
  from t r have "let recs = a_recommendations a in
     count_list recs ''Avoid common words and patterns'' = of_bool (a_has_common_patterns a)
   \<and> count_list recs ''Avoid sequential characters (abc, 123)'' = of_bool (a_has_sequential a)
   \<and> count_list recs ''Avoid keyboard patterns (qwerty)'' = of_bool (a_has_keyboard_patterns a)
   \<and> count_list recs ''Avoid repeated characters (aaa, 111)'' = of_bool (a_has_repeated_chars a)
   \<and> count_list recs ''Increase length to at least 8 characters'' = of_bool (a_length a < 8)
   \<and> count_list recs ''Consider increasing length to 12+ characters''
       = of_bool (8 \<le> a_length a \<and> a_length a < 12)
   \<and> count_list recs ''Add uppercase letters (A-Z)'' = of_bool (\<not> a_has_uppercase a)
   \<and> count_list recs ''Add lowercase letters (a-z)'' = of_bool (\<not> a_has_lowercase a)
   \<and> count_list recs ''Add numbers (0-9)'' = of_bool (\<not> a_has_numbers a)
   \<and> count_list recs ''Add symbols (!@#$...)'' = of_bool (\<not> a_has_symbols a)
   \<and> count_list recs ''Significantly increase password complexity'' = of_bool (a_entropy a < 40)
   \<and> (recs = [''Password meets security best practices!''])
       = (12 \<le> a_length a \<and> a_has_uppercase a \<and> a_has_lowercase a \<and> a_has_numbers a
          \<and> a_has_symbols a \<and> \<not> a_has_common_patterns a \<and> \<not> a_has_sequential a
          \<and> \<not> a_has_keyboard_patterns a \<and> \<not> a_has_repeated_chars a \<and> 40 \<le> a_entropy a)
   \<and> (count_list recs ''Password meets security best practices!'' = 0
        \<or> recs = [''Password meets security best practices!''])
   \<and> generate_recommendations
         (a\<lparr>a_has_date_pattern := False, a_has_number_only_suffix := False\<rparr>) = recs"
    by blast
  with flags have "count_list (a_recommendations a) ''Avoid repeated characters (aaa, 111)'' = 1
     \<and> count_list (a_recommendations a) ''Avoid keyboard patterns (qwerty)'' = 0
     \<and> count_list (a_recommendations a) ''Increase length to at least 8 characters'' = 1
     \<and> a_recommendations a \<noteq> [''Password meets security best practices!'']"
    unfolding Let_def by simp
  with r ne le show ?thesis by blast
qed

section \<open>Properties of the policy validator\<close>

lemma append_case:
  "(case m of None \<Rightarrow> xs | Some v \<Rightarrow> xs @ g v)
     = xs @ (case m of None \<Rightarrow> [] | Some v \<Rightarrow> g v)"
  by (cases m) simp_all

lemma validate_raises:
  assumes "analyze password = Inl e"
  shows "validate policy password = Inl e"
  by (simp only: validate_def Let_def assms sum.case)

lemma validate_collected:
  assumes "analyze password = Inr analysis"
  shows "validate policy password =
     Inr \<lparr> v_valid = (collected_errors policy password analysis = []),
       v_errors = collected_errors policy password analysis,
       v_warnings = (if collected_errors policy password analysis = []
                     then collected_warnings policy analysis else []),
       v_score = a_score analysis, v_strength = a_strength analysis \<rparr>"
  apply (simp only: validate_def Let_def assms sum.case)
  apply (simp only: collected_errors_def collected_warnings_def append_if append_case)
  apply (simp only: append_Nil append_assoc length_0_conv)
  done

text \<open>
  Claim C8. For every password and policy, the result that \<open>validate\<close> returns is valid
  if and only if its list of errors is empty; its warnings are non-empty only when
  the errors are empty, and then they are the advisory to strengthen when the score is
  below 60 followed by the advisory on symbols when the policy does not require them
  and the password has none. The validity is read from the errors alone. \<open>validate\<close>
  returns a result whenever the analyzer returns a report, which it does for every
  password of up to 146 characters.
\<close>

theorem validate_valid_iff_no_errors:
  "(length password \<le> 146 \<longrightarrow> (\<exists>r. validate policy password = Inr r))
   \<and> (\<forall>r. validate policy password = Inr r \<longrightarrow>
         v_valid r = (v_errors r = [])
       \<and> (v_warnings r = [] \<or> v_errors r = [])
       \<and> (\<exists>report. analyze password = Inr report
             \<and> v_score r = a_score report \<and> v_strength r = a_strength report
             \<and> (v_errors r = [] \<longrightarrow>
                  v_warnings r
                  = (if a_score report < 60
                     then [Text ''Password is weak. Consider making it stronger.''] else [])
                    @ (if \<not> require_symbols policy \<and> \<not> a_has_symbols report
                       then [Text ''Adding symbols would significantly improve strength'']
                       else []))))"
proof (intro conjI allI impI)
  assume "length password \<le> 146"
  then obtain report where "analyze password = Inr report" using analyze_short by blast
  then show "\<exists>r. validate policy password = Inr r" by (simp add: validate_collected)
next
  fix r
  assume v: "validate policy password = Inr r"
  obtain report where a: "analyze password = Inr report"
  proof (cases "analyze password")
    case (Inl e)
    then have "validate policy password = Inl e" by (rule validate_raises)
    with v show ?thesis by simp
  next
    case (Inr report)
    then show ?thesis by (rule that)
  qed
  from v have r: "r = \<lparr> v_valid = (collected_errors policy password report = []),
       v_errors = collected_errors policy password report,
       v_warnings = (if collected_errors policy password report = []
                     then collected_warnings policy report else []),
       v_score = a_score report, v_strength = a_strength report \<rparr>"
    by (simp add: validate_collected [OF a])
  show "v_valid r = (v_errors r = [])" by (simp add: r)
  show "v_warnings r = [] \<or> v_errors r = []" by (simp add: r)
  have "v_score r = a_score report \<and> v_strength r = a_strength report
     \<and> (v_errors r = [] \<longrightarrow>
          v_warnings r
          = (if a_score report < 60
             then [Text ''Password is weak. Consider making it stronger.''] else [])
            @ (if \<not> require_symbols policy \<and> \<not> a_has_symbols report
               then [Text ''Adding symbols would significantly improve strength'']
               else []))"
    by (simp add: r collected_warnings_def split del: if_split)
  with a show "\<exists>report. analyze password = Inr report
             \<and> v_score r = a_score report \<and> v_strength r = a_strength report
             \<and> (v_errors r = [] \<longrightarrow>
                  v_warnings r
                  = (if a_score report < 60
                     then [Text ''Password is weak. Consider making it stronger.''] else [])
                    @ (if \<not> require_symbols policy \<and> \<not> a_has_symbols report
                       then [Text ''Adding symbols would significantly improve strength'']
                       else []))"
    by blast
qed

theorem validate_valid_iff_no_errors_witness:
  "length ''Ab1!'' \<le> 146
   \<and> (\<exists>r. validate default_policy ''Ab1!'' = Inr r
         \<and> \<not> v_valid r \<and> v_errors r \<noteq> [] \<and> v_warnings r = []
         \<and> hd (v_errors r) = Text ''Password must be at least 8 characters'')"
proof -
  have le: "length ''Ab1!'' \<le> 146" by simp
  note t = validate_valid_iff_no_errors [of "''Ab1!''" default_policy]
  from t le obtain r where r: "validate default_policy ''Ab1!'' = Inr r" by blast
  from t r obtain report where a: "analyze ''Ab1!'' = Inr report"
    and iff: "v_valid r = (v_errors r = [])" and w: "v_warnings r = [] \<or> v_errors r = []"
    by blast
  have s: "str_int 8 = ''8''" by code_simp
  have "v_errors r = collected_errors default_policy ''Ab1!'' report"
    using r unfolding validate_collected [OF a] by auto
  then have e: "v_errors r = Text ''Password must be at least 8 characters'' # tl (v_errors r)"
    by (simp add: collected_errors_def default_policy_def s split del: if_split)
  then have ne: "v_errors r \<noteq> []" by (metis list.distinct(1))
  moreover from e have "hd (v_errors r) = Text ''Password must be at least 8 characters''"
    by (metis list.sel(1))
  ultimately show ?thesis using r iff w le by blast
qed

section \<open>Properties of the crack-time estimator\<close>

lemma str_int_small: "str_int 1 = ''1''" "str_int 2 = ''2''"
  by code_simp+

lemma powr_6_log_36: "2 powr (6 * log 2 36) = (2176782336::real)"
proof -
  have "(2::real) powr (log 2 36 * 6) = (2 powr log 2 36) powr 6"
    by (simp only: powr_powr)
  also have "\<dots> = (36::real) powr 6" by simp
  also have "\<dots> = (36::real) ^ 6" using powr_realpow [of 36 6] by simp
  also have "\<dots> = 2176782336" by simp
  finally show ?thesis by (simp add: mult.commute)
qed

text \<open>
  Claim C6 holds of every band but the seconds band, which prints the plural for the
  count 1: the formatter gives \<open>1 seconds\<close> for one second, where the bands beside it
  give \<open>1 minute\<close> and \<open>2 minutes\<close>. The estimator reaches it at 31 bits, and the
  analyzer for a password of six lower-case letters and digits.
\<close>

theorem format_time_one_second:
  "format_time 1 = ''1 seconds''
   \<and> format_time 60 = ''1 minute'' \<and> format_time 120 = ''2 minutes''
   \<and> estimate_from_entropy BRUTE_FORCE_RATE 31 = Inr ''1 seconds''
   \<and> (\<exists>report. analyze ''xk4m9q'' = Inr report \<and> a_crack_time report = ''1 seconds'')"
proof -
  have 1: "format_time 1 = ''1 seconds''"
    by (simp add: format_time_def py_int_def str_int_small)
  have 2: "format_time 60 = ''1 minute''" "format_time 120 = ''2 minutes''"
    by (simp_all add: format_time_def py_int_def str_int_small)
  have p: "(2::real) powr 31 = 2147483648" using powr_realpow [of 2 31] by simp
  have f: "\<lfloor>(2147483648::real) / 2000000000\<rfloor> = 1" by linarith
  have 3: "estimate_from_entropy BRUTE_FORCE_RATE 31 = Inr ''1 seconds''"
    using f by (simp add: estimate_from_entropy_cases p format_time_def py_int_def str_int_small)
  let ?p = "''xk4m9q''"
  have ne: "?p \<noteq> []" by simp
  have cls: "\<not> re_search_class re_upper ?p" "re_search_class re_lower ?p"
    "re_search_class re_digit ?p" "\<not> re_search_class re_symbol ?p"
    by code_simp+
  have size: "entropy_charset_size (analyze_scored ?p) = 36"
    using cls by (simp add: entropy_charset_size_def analyze_scored_classes)
  have ent: "a_entropy (analyze_scored ?p) = 6 * log 2 36"
    using size by (simp add: analyze_scored_derived(2) analyzer_calculate_entropy_def)
  have "log 2 (36::real) \<le> log 2 128" by simp
  then have l7: "log 2 (36::real) \<le> 7" by (simp only: log2_128)
  have "log 2 (1::real) < log 2 36" by simp
  then have l0: "0 < log 2 (36::real)" by simp
  have g: "\<lfloor>(2176782336::real) / 2000000000\<rfloor> = 1" by linarith
  have est: "estimate_from_entropy BRUTE_FORCE_RATE (a_entropy (analyze_scored ?p))
      = Inr ''1 seconds''"
    using l7 l0 g
    by (simp add: ent estimate_from_entropy_cases powr_6_log_36 format_time_def py_int_def
        str_int_small)
  have lt: "a_entropy (analyze_scored ?p) < 1024" using l7 by (simp add: ent)
  from analyze_returns [OF ne lt] est
  have 4: "\<exists>report. analyze ?p = Inr report \<and> a_crack_time report = ''1 seconds''"
    by auto
  from 1 2 3 4 show ?thesis by simp
qed

end
